theory Spec2Isabelle
  imports Complex_Main
begin

section \<open>Python errors and numpy floats\<close>

text \<open>
  Every raise of the source, and every exception of numpy, scipy or torch that the
  modelled code can run into, is a value of \<open>py_error\<close>; a computation that may raise
  returns \<open>py_error + 'a\<close> with \<open>Inl\<close> for the exception.
\<close>

datatype py_error =
    ValueError string
  | IndexError
  | TypeError
  | ZeroDivisionError
  | RuntimeError
  | LinAlgError

definition py_bind :: "py_error + 'a \<Rightarrow> ('a \<Rightarrow> py_error + 'b) \<Rightarrow> py_error + 'b" where
  "py_bind m f = (case m of Inl e \<Rightarrow> Inl e | Inr v \<Rightarrow> f v)"

text \<open>
  A float64 (or float32) is a real number or one of the three special values of IEEE
  arithmetic. Rounding, overflow of finite results and the sign of zero are not
  modelled: finite operations are exact, and a zero divisor counts as \<open>+0.0\<close>.
  numpy and torch do not raise on a division by zero or an invalid operation on
  floats; they return \<open>inf\<close> or \<open>nan\<close> (with a warning at most).
\<close>

datatype npfloat = Fin real | PInf | NInf | NaN

fun np_neg :: "npfloat \<Rightarrow> npfloat" where
  "np_neg (Fin a) = Fin (- a)"
| "np_neg PInf = NInf"
| "np_neg NInf = PInf"
| "np_neg NaN = NaN"

fun np_add :: "npfloat \<Rightarrow> npfloat \<Rightarrow> npfloat" where
  "np_add (Fin a) (Fin b) = Fin (a + b)"
| "np_add NaN _ = NaN"
| "np_add _ NaN = NaN"
| "np_add PInf NInf = NaN"
| "np_add NInf PInf = NaN"
| "np_add PInf _ = PInf"
| "np_add _ PInf = PInf"
| "np_add NInf _ = NInf"
| "np_add _ NInf = NInf"

definition np_sub :: "npfloat \<Rightarrow> npfloat \<Rightarrow> npfloat" where
  "np_sub a b = np_add a (np_neg b)"

definition inf_of_sign :: "real \<Rightarrow> npfloat" where
  "inf_of_sign a = (if a = 0 then NaN else if 0 < a then PInf else NInf)"

fun np_mul :: "npfloat \<Rightarrow> npfloat \<Rightarrow> npfloat" where
  "np_mul (Fin a) (Fin b) = Fin (a * b)"
| "np_mul NaN _ = NaN"
| "np_mul _ NaN = NaN"
| "np_mul (Fin a) PInf = inf_of_sign a"
| "np_mul (Fin a) NInf = inf_of_sign (- a)"
| "np_mul PInf (Fin b) = inf_of_sign b"
| "np_mul NInf (Fin b) = inf_of_sign (- b)"
| "np_mul PInf PInf = PInf"
| "np_mul PInf NInf = NInf"
| "np_mul NInf PInf = NInf"
| "np_mul NInf NInf = PInf"

fun np_div :: "npfloat \<Rightarrow> npfloat \<Rightarrow> npfloat" where
  "np_div (Fin a) (Fin b) = (if b = 0 then inf_of_sign a else Fin (a / b))"
| "np_div NaN _ = NaN"
| "np_div _ NaN = NaN"
| "np_div (Fin a) PInf = Fin 0"
| "np_div (Fin a) NInf = Fin 0"
| "np_div PInf (Fin b) = (if 0 \<le> b then PInf else NInf)"
| "np_div NInf (Fin b) = (if 0 \<le> b then NInf else PInf)"
| "np_div PInf PInf = NaN"
| "np_div PInf NInf = NaN"
| "np_div NInf PInf = NaN"
| "np_div NInf NInf = NaN"

fun np_sqrt :: "npfloat \<Rightarrow> npfloat" where
  "np_sqrt (Fin a) = (if a < 0 then NaN else Fin (sqrt a))"
| "np_sqrt PInf = PInf"
| "np_sqrt NInf = NaN"
| "np_sqrt NaN = NaN"

fun np_clamp :: "real \<Rightarrow> real \<Rightarrow> npfloat \<Rightarrow> npfloat" where
  "np_clamp lo hi (Fin a) = Fin (min (max a lo) hi)"
| "np_clamp lo hi PInf = Fin hi"
| "np_clamp lo hi NInf = Fin lo"
| "np_clamp lo hi NaN = NaN"

fun cumprod :: "real \<Rightarrow> real list \<Rightarrow> real list" where
  "cumprod acc [] = []"
| "cumprod acc (a # as) = (acc * a) # cumprod (acc * a) as"

text \<open>The finite floats, and the real number that one stands for.\<close>

fun is_fin :: "npfloat \<Rightarrow> bool" where
  "is_fin (Fin a) = True"
| "is_fin _ = False"

fun fin_val :: "npfloat \<Rightarrow> real" where
  "fin_val (Fin a) = a"
| "fin_val _ = 0"

section \<open>The discrete-time diffusion model (\<open>discrete_time_diffusion.py\<close>)\<close>

text \<open>
  A tensor of shape \<open>(batch, latent_size, channels)\<close> is a nested list. The denoiser
  network is a function of the sample, the batch of time steps and the optional
  condition \<open>y\<close>; \<open>None\<close> is Python's \<open>None\<close>.
\<close>

type_synonym tensor = "npfloat list list list"

type_synonym 'c denoiser = "tensor \<Rightarrow> int list \<Rightarrow> 'c list option \<Rightarrow> tensor"

record 'c diffusion =
  model :: "'c denoiser"
  ema_model :: "'c denoiser"
  ema_decay :: real
  ema_start :: int
  ema_update_rate :: int
  step :: int
  latent_size :: nat
  channels :: nat
  loss_type :: string
  num_timesteps :: nat
  ddim_timesteps :: nat
  ddim_eta :: real
  betas :: "npfloat list"
  alphas :: "npfloat list"
  alphas_cumprod :: "npfloat list"
  sqrt_alphas_cumprod :: "npfloat list"
  sqrt_one_minus_alphas_cumprod :: "npfloat list"
  reciprocal_sqrt_alphas :: "npfloat list"
  remove_noise_coeff :: "npfloat list"
  sigma :: "npfloat list"

text \<open>
  \<open>PointDiTDiffusion.__init__\<close>: the loss type is validated after the model has been
  copied and the scalar attributes set, and before the schedule buffers are computed.
  \<open>betas\<close> is a numpy array of floats, so building the buffers raises nothing.
\<close>

definition PointDiTDiffusion_init ::
  "'c denoiser \<Rightarrow> nat \<Rightarrow> nat \<Rightarrow> real list \<Rightarrow> string \<Rightarrow> real \<Rightarrow> int \<Rightarrow> int
    \<Rightarrow> py_error + 'c diffusion" where
  "PointDiTDiffusion_init net latent chans bs ltype decay start rate =
     (if ltype \<notin> set [''l1'', ''l2'']
      then Inl (ValueError ''__init__() got unknown loss type'')
      else
        let als = map (\<lambda>b. 1 - b) bs;
            acp = cumprod 1 als
        in Inr \<lparr> model = net, ema_model = net, ema_decay = decay, ema_start = start,
                 ema_update_rate = rate, step = 0, latent_size = latent, channels = chans,
                 loss_type = ltype, num_timesteps = length bs, ddim_timesteps = 50,
                 ddim_eta = 0,
                 betas = map Fin bs,
                 alphas = map Fin als,
                 alphas_cumprod = map Fin acp,
                 sqrt_alphas_cumprod = map (\<lambda>a. np_sqrt (Fin a)) acp,
                 sqrt_one_minus_alphas_cumprod = map (\<lambda>a. np_sqrt (Fin (1 - a))) acp,
                 reciprocal_sqrt_alphas = map (\<lambda>a. np_sqrt (np_div (Fin 1) (Fin a))) als,
                 remove_noise_coeff =
                   map2 (\<lambda>b a. np_div (Fin b) (np_sqrt (Fin (1 - a)))) bs acp,
                 sigma = map (\<lambda>b. np_sqrt (Fin b)) bs \<rparr>)"

subsection \<open>Effects of sampling\<close>

text \<open>
  Sampling draws noise from torch's global generator and calls the denoiser. Both are
  effects: \<open>draws\<close> counts the tensors drawn so far, \<open>net_calls\<close> the calls of a
  denoiser. An exception leaves the state as it was when it was raised. The generator
  is a parameter: \<open>randn_draw g k (b, l, c)\<close> is the tensor that the \<open>k\<close>-th draw returns
  for that shape, and \<open>randn_like_draw g k x\<close> the one shaped like \<open>x\<close>.
\<close>

record run =
  draws :: nat
  net_calls :: nat

record generator =
  randn_draw :: "nat \<Rightarrow> nat \<times> nat \<times> nat \<Rightarrow> tensor"
  randn_like_draw :: "nat \<Rightarrow> tensor \<Rightarrow> tensor"

type_synonym 'a eff = "(py_error + 'a) \<times> run"

definition eff_bind :: "'a eff \<Rightarrow> ('a \<Rightarrow> run \<Rightarrow> 'b eff) \<Rightarrow> 'b eff" where
  "eff_bind m f = (case m of (Inl e, s) \<Rightarrow> (Inl e, s) | (Inr v, s) \<Rightarrow> f v s)"

definition torch_randn :: "generator \<Rightarrow> int \<Rightarrow> nat \<Rightarrow> nat \<Rightarrow> run \<Rightarrow> tensor eff" where
  "torch_randn g b l c s =
     (if b < 0 then (Inl RuntimeError, s)
      else (Inr (randn_draw g (draws s) (nat b, l, c)), s\<lparr>draws := draws s + 1\<rparr>))"

definition torch_randn_like :: "generator \<Rightarrow> tensor \<Rightarrow> run \<Rightarrow> tensor eff" where
  "torch_randn_like g x s = (Inr (randn_like_draw g (draws s) x), s\<lparr>draws := draws s + 1\<rparr>)"

definition call_net :: "'c denoiser \<Rightarrow> tensor \<Rightarrow> int list \<Rightarrow> 'c list option \<Rightarrow> run \<Rightarrow> tensor eff" where
  "call_net net x t y s = (Inr (net x t y), s\<lparr>net_calls := net_calls s + 1\<rparr>)"

definition lift_err :: "py_error + 'a \<Rightarrow> run \<Rightarrow> 'a eff" where
  "lift_err m s = (m, s)"

subsection \<open>Tensor arithmetic\<close>

text \<open>
  \<open>extract_t a t\<close> is the source's \<open>extract(a, t, x_shape)\<close>: it gathers \<open>a[t[i]]\<close> for every element of the batch and reshapes
  it to \<open>(b, 1, 1)\<close>: one coefficient per batch element, which then multiplies or
  divides the whole slice of that element. \<open>gather\<close> raises on an index out of range.
  The denoiser returns a tensor of the shape of its input, so the element-wise
  operations below always meet equal shapes.
\<close>

definition extract_t :: "npfloat list \<Rightarrow> int list \<Rightarrow> py_error + npfloat list" where
  "extract_t a t =
     (if list_all (\<lambda>i. 0 \<le> i \<and> i < int (length a)) t
      then Inr (map (\<lambda>i. a ! nat i) t) else Inl RuntimeError)"

definition t_map2 :: "(npfloat \<Rightarrow> npfloat \<Rightarrow> npfloat) \<Rightarrow> tensor \<Rightarrow> tensor \<Rightarrow> tensor" where
  "t_map2 f a b = map2 (map2 (map2 f)) a b"

definition t_coef :: "(npfloat \<Rightarrow> npfloat \<Rightarrow> npfloat) \<Rightarrow> tensor \<Rightarrow> npfloat list \<Rightarrow> tensor" where
  "t_coef f x cs = map2 (\<lambda>xb c. map (map (\<lambda>v. f v c)) xb) x cs"

definition t_map :: "(npfloat \<Rightarrow> npfloat) \<Rightarrow> tensor \<Rightarrow> tensor" where
  "t_map f x = map (map (map f)) x"

definition np_get :: "'a list \<Rightarrow> nat \<Rightarrow> py_error + 'a" where
  "np_get xs i = (if i < length xs then Inr (xs ! i) else Inl IndexError)"

subsection \<open>Ancestral sampling\<close>

text \<open>
  \<open>remove_noise\<close>: \<open>(x - extract(remove_noise_coeff, t) * net(x, t, y)) *
  extract(reciprocal_sqrt_alphas, t)\<close>, with the EMA copy of the network when
  \<open>use_ema\<close> holds, evaluated left to right.
\<close>

definition remove_noise ::
  "'c diffusion \<Rightarrow> tensor \<Rightarrow> int list \<Rightarrow> 'c list option \<Rightarrow> bool \<Rightarrow> run \<Rightarrow> tensor eff" where
  "remove_noise d x t y use_ema s =
     eff_bind (lift_err (extract_t (remove_noise_coeff d) t) s) (\<lambda>c s.
     eff_bind (call_net (if use_ema then ema_model d else model d) x t y s) (\<lambda>eps s.
     eff_bind (lift_err (extract_t (reciprocal_sqrt_alphas d) t) s) (\<lambda>r s.
       (Inr (t_coef np_mul (t_map2 np_sub x (t_coef np_mul eps c)) r), s))))"

text \<open>One iteration of the loop \<open>for t in range(num_timesteps - 1, -1, -1)\<close>.\<close>

definition sample_step ::
  "'c diffusion \<Rightarrow> generator \<Rightarrow> nat \<Rightarrow> 'c list option \<Rightarrow> bool \<Rightarrow> nat \<Rightarrow> tensor \<Rightarrow> run
    \<Rightarrow> tensor eff" where
  "sample_step d g b y use_ema t x s =
     (let t_batch = replicate b (int t) in
      eff_bind (remove_noise d x t_batch y use_ema s) (\<lambda>x1 s.
        if 0 < t then
          eff_bind (lift_err (extract_t (sigma d) t_batch) s) (\<lambda>sg s.
          eff_bind (torch_randn_like g x1 s) (\<lambda>z s.
            (Inr (t_map2 np_add x1 (t_coef np_mul z sg)), s)))
        else (Inr x1, s)))"

fun sample_loop ::
  "'c diffusion \<Rightarrow> generator \<Rightarrow> nat \<Rightarrow> 'c list option \<Rightarrow> bool \<Rightarrow> nat list \<Rightarrow> tensor \<Rightarrow> run
    \<Rightarrow> tensor eff" where
  "sample_loop d g b y use_ema [] x s = (Inr x, s)"
| "sample_loop d g b y use_ema (t # ts) x s =
     (case sample_step d g b y use_ema t x s of
        (Inl e, s1) \<Rightarrow> (Inl e, s1)
      | (Inr x1, s1) \<Rightarrow> sample_loop d g b y use_ema ts x1 s1)"

definition sample ::
  "'c diffusion \<Rightarrow> generator \<Rightarrow> int \<Rightarrow> 'c list option \<Rightarrow> bool \<Rightarrow> run \<Rightarrow> tensor eff" where
  "sample d g batch_size y use_ema s =
     (if (case y of None \<Rightarrow> False | Some ys \<Rightarrow> batch_size \<noteq> int (length ys))
      then (Inl (ValueError ''sample batch size different from length of given y''), s)
      else
        eff_bind (torch_randn g batch_size (latent_size d) (channels d) s) (\<lambda>x s.
          sample_loop d g (nat batch_size) y use_ema (rev [0..<num_timesteps d]) x s))"

fun diffusion_sequence_loop ::
  "'c diffusion \<Rightarrow> generator \<Rightarrow> nat \<Rightarrow> 'c list option \<Rightarrow> bool \<Rightarrow> nat list \<Rightarrow> tensor
    \<Rightarrow> tensor list \<Rightarrow> run \<Rightarrow> tensor list eff" where
  "diffusion_sequence_loop d g b y use_ema [] x acc s = (Inr acc, s)"
| "diffusion_sequence_loop d g b y use_ema (t # ts) x acc s =
     (case sample_step d g b y use_ema t x s of
        (Inl e, s1) \<Rightarrow> (Inl e, s1)
      | (Inr x1, s1) \<Rightarrow> diffusion_sequence_loop d g b y use_ema ts x1 (acc @ [x1]) s1)"

definition sample_diffusion_sequence ::
  "'c diffusion \<Rightarrow> generator \<Rightarrow> int \<Rightarrow> 'c list option \<Rightarrow> bool \<Rightarrow> run \<Rightarrow> tensor list eff" where
  "sample_diffusion_sequence d g batch_size y use_ema s =
     (if (case y of None \<Rightarrow> False | Some ys \<Rightarrow> batch_size \<noteq> int (length ys))
      then (Inl (ValueError ''sample batch size different from length of given y''), s)
      else
        eff_bind (torch_randn g batch_size (latent_size d) (channels d) s) (\<lambda>x s.
          diffusion_sequence_loop d g (nat batch_size) y use_ema
            (rev [0..<num_timesteps d]) x [x] s))"

subsection \<open>DDIM sampling\<close>

text \<open>
  \<open>c = num_timesteps // ddim_timesteps\<close>, then \<open>range(0, num_timesteps, c) + 1\<close>:
  the integer division raises on a zero divisor and \<open>range\<close> on a zero step.
\<close>

definition ddim_timestep_seq :: "nat \<Rightarrow> nat \<Rightarrow> py_error + int list" where
  "ddim_timestep_seq T n =
     (if n = 0 then Inl ZeroDivisionError
      else let c = T div n in
        if c = 0 then Inl (ValueError ''range() arg 3 must not be zero'')
        else Inr (map (\<lambda>k. int (k * c) + 1) [0..<(T + c - 1) div c]))"

definition perturb_x ::
  "'c diffusion \<Rightarrow> tensor \<Rightarrow> int list \<Rightarrow> tensor \<Rightarrow> py_error + tensor" where
  "perturb_x d x t noise =
     py_bind (extract_t (sqrt_alphas_cumprod d) t) (\<lambda>a.
     py_bind (extract_t (sqrt_one_minus_alphas_cumprod d) t) (\<lambda>b.
       Inr (t_map2 np_add (t_coef np_mul x a) (t_coef np_mul noise b))))"

text \<open>
  \<open>x_prev[:, fix_indices, 0] = gt_repaint[:, fix_indices, 0]\<close>, with \<open>fix_indices\<close>
  a list of positions along the second axis: the right-hand side is read first.
\<close>

definition pick_fixed :: "nat list \<Rightarrow> npfloat list list \<Rightarrow> py_error + npfloat list" where
  "pick_fixed idx xb =
     (if list_all (\<lambda>j. j < length xb \<and> xb ! j \<noteq> []) idx
      then Inr (map (\<lambda>j. hd (xb ! j)) idx) else Inl IndexError)"

fun put_fixed :: "nat list \<Rightarrow> npfloat list \<Rightarrow> npfloat list list \<Rightarrow> npfloat list list" where
  "put_fixed (j # js) (v # vs) xb = put_fixed js vs (xb[j := v # tl (xb ! j)])"
| "put_fixed _ _ xb = xb"

fun repaint_rows ::
  "nat list \<Rightarrow> npfloat list list list \<Rightarrow> npfloat list list list \<Rightarrow> py_error + tensor" where
  "repaint_rows idx [] [] = Inr []"
| "repaint_rows idx (xb # xs) (gb # gs) =
     py_bind (pick_fixed idx gb) (\<lambda>vs.
     py_bind (pick_fixed idx xb) (\<lambda>_.
     py_bind (repaint_rows idx xs gs) (\<lambda>rest. Inr (put_fixed idx vs xb # rest))))"
| "repaint_rows idx _ _ = Inl RuntimeError"

text \<open>
  One iteration of the DDIM loop at position \<open>i\<close> of the strided sequence; \<open>fix\<close> is
  \<open>fix_indices\<close> and \<open>gt\<close> the ground truth of the repainting (\<open>sample_ddim\<close> only).
\<close>

definition ddim_step ::
  "'c diffusion \<Rightarrow> generator \<Rightarrow> nat \<Rightarrow> 'c list option \<Rightarrow> bool \<Rightarrow> bool \<Rightarrow> tensor option
    \<Rightarrow> nat list option \<Rightarrow> int list \<Rightarrow> int list \<Rightarrow> nat \<Rightarrow> tensor \<Rightarrow> run \<Rightarrow> tensor eff" where
  "ddim_step d g b y use_ema clip_denoised gt fix seq prev_seq i x s =
     eff_bind (lift_err (np_get seq i) s) (\<lambda>ti s.
     eff_bind (lift_err (np_get prev_seq i) s) (\<lambda>pti s.
     let t = replicate b ti; prev_t = replicate b pti in
     eff_bind (lift_err (extract_t (alphas_cumprod d) t) s) (\<lambda>a_t s.
     eff_bind (lift_err (extract_t (alphas_cumprod d) prev_t) s) (\<lambda>a_prev s.
     eff_bind (call_net (if use_ema then ema_model d else model d) x t y s) (\<lambda>pred_noise s.
     let x0 = t_coef np_div
                (t_map2 np_sub x
                  (t_coef np_mul pred_noise (map (\<lambda>a. np_sqrt (np_sub (Fin 1) a)) a_t)))
                (map np_sqrt a_t);
         pred_x0 = (if clip_denoised then t_map (np_clamp (- 1) 1) x0 else x0);
         sigmas_t = map2 (\<lambda>ap a. np_mul (Fin (ddim_eta d))
                       (np_sqrt (np_mul (np_div (np_sub (Fin 1) ap) (np_sub (Fin 1) a))
                                        (np_sub (Fin 1) (np_div a ap))))) a_prev a_t;
         pred_dir_xt = t_coef np_mul pred_noise
                         (map2 (\<lambda>ap sg. np_sqrt (np_sub (np_sub (Fin 1) ap) (np_mul sg sg)))
                            a_prev sigmas_t)
     in
     eff_bind (torch_randn_like g x s) (\<lambda>z s.
     let x_prev = t_map2 np_add
                    (t_map2 np_add (t_coef np_mul pred_x0 (map np_sqrt a_prev)) pred_dir_xt)
                    (t_coef np_mul z sigmas_t)
     in
       case fix of
         None \<Rightarrow> (Inr x_prev, s)
       | Some idx \<Rightarrow>
           (case gt of
              None \<Rightarrow> (Inl TypeError, s)
            | Some gtv \<Rightarrow>
                eff_bind (torch_randn_like g gtv s) (\<lambda>zg s.
                eff_bind (lift_err (perturb_x d gtv (map (\<lambda>v. v - 1) t) zg) s) (\<lambda>gt_repaint s.
                  lift_err (repaint_rows idx x_prev gt_repaint) s)))))))))"

fun ddim_loop ::
  "'c diffusion \<Rightarrow> generator \<Rightarrow> nat \<Rightarrow> 'c list option \<Rightarrow> bool \<Rightarrow> bool \<Rightarrow> tensor option
    \<Rightarrow> nat list option \<Rightarrow> int list \<Rightarrow> int list \<Rightarrow> nat list \<Rightarrow> tensor \<Rightarrow> run \<Rightarrow> tensor eff" where
  "ddim_loop d g b y use_ema clip gt fix seq prev_seq [] x s = (Inr x, s)"
| "ddim_loop d g b y use_ema clip gt fix seq prev_seq (i # is) x s =
     (case ddim_step d g b y use_ema clip gt fix seq prev_seq i x s of
        (Inl e, s1) \<Rightarrow> (Inl e, s1)
      | (Inr x1, s1) \<Rightarrow> ddim_loop d g b y use_ema clip gt fix seq prev_seq is x1 s1)"

definition sample_ddim ::
  "'c diffusion \<Rightarrow> generator \<Rightarrow> int \<Rightarrow> 'c list option \<Rightarrow> bool \<Rightarrow> bool \<Rightarrow> tensor option
    \<Rightarrow> nat list option \<Rightarrow> run \<Rightarrow> tensor eff" where
  "sample_ddim d g batch_size y use_ema clip_denoised gt fix_indices s =
     (if (case y of None \<Rightarrow> False | Some ys \<Rightarrow> batch_size \<noteq> int (length ys))
      then (Inl (ValueError ''sample batch size different from length of given y''), s)
      else
        eff_bind (lift_err (ddim_timestep_seq (num_timesteps d) (ddim_timesteps d)) s) (\<lambda>seq s.
        eff_bind (torch_randn g batch_size (latent_size d) (channels d) s) (\<lambda>x s.
          ddim_loop d g (nat batch_size) y use_ema clip_denoised gt fix_indices
            seq (0 # butlast seq) (rev [0..<ddim_timesteps d]) x s)))"

fun ddim_sequence_loop ::
  "'c diffusion \<Rightarrow> generator \<Rightarrow> nat \<Rightarrow> 'c list option \<Rightarrow> bool \<Rightarrow> bool \<Rightarrow> int list \<Rightarrow> int list
    \<Rightarrow> nat list \<Rightarrow> tensor \<Rightarrow> tensor list \<Rightarrow> run \<Rightarrow> tensor list eff" where
  "ddim_sequence_loop d g b y use_ema clip seq prev_seq [] x ans s = (Inr ans, s)"
| "ddim_sequence_loop d g b y use_ema clip seq prev_seq (i # is) x ans s =
     (case ddim_step d g b y use_ema clip None None seq prev_seq i x s of
        (Inl e, s1) \<Rightarrow> (Inl e, s1)
      | (Inr x1, s1) \<Rightarrow>
          ddim_sequence_loop d g b y use_ema clip seq prev_seq is x1 (ans @ [x1]) s1)"

definition sample_ddim_sequence ::
  "'c diffusion \<Rightarrow> generator \<Rightarrow> int \<Rightarrow> 'c list option \<Rightarrow> bool \<Rightarrow> bool \<Rightarrow> run
    \<Rightarrow> tensor list eff" where
  "sample_ddim_sequence d g batch_size y use_ema clip_denoised s =
     (if (case y of None \<Rightarrow> False | Some ys \<Rightarrow> batch_size \<noteq> int (length ys))
      then (Inl (ValueError ''sample batch size different from length of given y''), s)
      else
        eff_bind (lift_err (ddim_timestep_seq (num_timesteps d) (ddim_timesteps d)) s) (\<lambda>seq s.
        eff_bind (torch_randn g batch_size (latent_size d) (channels d) s) (\<lambda>x s.
          ddim_sequence_loop d g (nat batch_size) y use_ema clip_denoised
            seq (0 # butlast seq) (rev [0..<ddim_timesteps d]) x [x] s)))"


text \<open>
  The guard of the four sampling functions raises one particular \<open>ValueError\<close>;
  \<open>no_size_error\<close> says that a run did not end in it.
\<close>

definition no_size_error :: "'a eff \<Rightarrow> bool" where
  "no_size_error m = (fst m \<noteq> Inl (ValueError ''sample batch size different from length of given y''))"

text \<open>
  A small concrete model for the closed instances below: two time steps, a denoiser
  that returns its input, a generator that draws zeros, and a fresh run.
\<close>

definition example_diffusion :: "unit diffusion" where
  "example_diffusion =
     projr (PointDiTDiffusion_init (\<lambda>x t y. x) 2 1 [1 / 10, 1 / 5] ''l2'' (9999 / 10000) 5000 1)"

definition example_generator :: generator where
  "example_generator =
     \<lparr> randn_draw = (\<lambda>k (b, l, c). replicate b (replicate l (replicate c (Fin 0)))),
       randn_like_draw = (\<lambda>k x. t_map (\<lambda>v. Fin 0) x) \<rparr>"

definition fresh_run :: run where
  "fresh_run = \<lparr> draws = 0, net_calls = 0 \<rparr>"

section \<open>The CST layer (\<open>parsec_direct_n15.py\<close>, class \<open>CSTLayer\<close>)\<close>

subsection \<open>numpy on one-dimensional arrays\<close>

text \<open>
  \<open>x ** a\<close> on finite floats is C's \<open>pow\<close>: \<open>pow(x, 0) = 1\<close> for every \<open>x\<close>,
  \<open>pow(0, a)\<close> is \<open>0\<close> for a positive and \<open>inf\<close> for a negative \<open>a\<close>, and a negative
  base has a value only for an integral exponent (\<open>nan\<close> otherwise).
\<close>

definition np_power :: "real \<Rightarrow> real \<Rightarrow> npfloat" where
  "np_power x a =
     (if a = 0 then Fin 1
      else if x = 0 then (if 0 < a then Fin 0 else PInf)
      else if 0 < x then Fin (x powr a)
      else if a = of_int \<lfloor>a\<rfloor> then Fin (x powi \<lfloor>a\<rfloor>)
      else NaN)"

text \<open>
  An element-wise operation on two one-dimensional arrays broadcasts an array of
  length one and raises on any other pair of different lengths.
\<close>

definition np_broadcast2 :: "('a \<Rightarrow> 'b \<Rightarrow> 'c) \<Rightarrow> 'a list \<Rightarrow> 'b list \<Rightarrow> py_error + 'c list" where
  "np_broadcast2 f xs ys =
     (if length xs = length ys then Inr (map2 f xs ys)
      else if length xs = 1 then Inr (map (f (hd xs)) ys)
      else if length ys = 1 then Inr (map (\<lambda>x. f x (hd ys)) xs)
      else Inl (ValueError ''operands could not be broadcast together''))"

text \<open>Python slices \<open>xs[:n]\<close> and \<open>xs[k:]\<close>, a negative bound counting from the end.\<close>

definition py_slice_to :: "int \<Rightarrow> 'a list \<Rightarrow> 'a list" where
  "py_slice_to n xs = (if n < 0 then take (nat (int (length xs) + n)) xs else take (nat n) xs)"

definition py_slice_from :: "int \<Rightarrow> 'a list \<Rightarrow> 'a list" where
  "py_slice_from k xs = (if k < 0 then drop (nat (int (length xs) + k)) xs else drop (nat k) xs)"

text \<open>\<open>xs[-1]\<close> raises \<open>IndexError\<close> on an empty array.\<close>

definition py_last :: "'a list \<Rightarrow> py_error + 'a" where
  "py_last xs = (if xs = [] then Inl IndexError else Inr (last xs))"

subsection \<open>The layer and its basis matrix\<close>

record cst_params =
  n_x :: nat
  x_coords :: "real list"
  n1 :: real
  n2 :: real
  n_cst :: nat

record cst_layer = cst_params +
  A0 :: "npfloat list list"

text \<open>
  Row \<open>r\<close> of the matrix that \<open>A0_matrix\<close> fills:
  \<open>k[r] = factorial(n) / factorial(r) / factorial(n - r)\<close> and
  \<open>A0[r, :] = k[r] * x ** (n1 + r) * (1 - x) ** (n + n2 - r)\<close>.
\<close>

definition A0_row :: "nat \<Rightarrow> real \<Rightarrow> real \<Rightarrow> real list \<Rightarrow> nat \<Rightarrow> npfloat list" where
  "A0_row n e1 e2 x r =
     (let k = fact n / fact r / fact (n - r)
      in map (\<lambda>xi. np_mul (np_mul (Fin k) (np_power xi (e1 + real r)))
                         (np_power (1 - xi) (real n + e2 - real r))) x)"

text \<open>
  \<open>A0_matrix\<close> fills an \<open>(n + 1, n_x)\<close> array row by row for \<open>r\<close> in \<open>range(n + 1)\<close>
  and returns its transpose. Assigning a row of \<open>len(x)\<close> values to a row of \<open>n_x\<close>
  cells broadcasts a single value and raises on any other difference of the lengths.
\<close>

definition A0_matrix :: "'a cst_params_scheme \<Rightarrow> py_error + npfloat list list" where
  "A0_matrix c =
     (let n = n_cst c; x = x_coords c in
      if length x = n_x c \<or> length x = 1 then
        let rows = map (\<lambda>r. let row = A0_row n (n1 c) (n2 c) x r
                            in if length x = n_x c then row else replicate (n_x c) (hd row))
                     [0..<n + 1]
        in Inr (map (\<lambda>i. map (\<lambda>row. row ! i) rows) [0..<n_x c])
      else Inl (ValueError ''could not broadcast input array''))"

text \<open>
  \<open>CSTLayer.__init__\<close>: without \<open>x_coords\<close> the stations are the half-cosine
  spacing \<open>(cos(theta) + 1) / 2\<close> over \<open>theta = linspace(pi, 2 pi, n_x)\<close>; with
  \<open>x_coords\<close> the argument \<open>n_x\<close> is replaced by their number.
\<close>

definition np_linspace :: "real \<Rightarrow> real \<Rightarrow> nat \<Rightarrow> real list" where
  "np_linspace lo hi n =
     map (\<lambda>i. if n = 1 then lo else lo + real i * ((hi - lo) / real (n - 1))) [0..<n]"

definition CSTLayer_init ::
  "real list option \<Rightarrow> nat \<Rightarrow> nat \<Rightarrow> real \<Rightarrow> real \<Rightarrow> py_error + cst_layer" where
  "CSTLayer_init xs n nx e1 e2 =
     (let p = (case xs of
                 None \<Rightarrow> \<lparr> n_x = nx,
                            x_coords = map (\<lambda>th. (cos th + 1) / 2) (np_linspace pi (2 * pi) nx),
                            n1 = e1, n2 = e2, n_cst = n \<rparr>
               | Some x \<Rightarrow> \<lparr> n_x = length x, x_coords = x, n1 = e1, n2 = e2, n_cst = n \<rparr>)
      in py_bind (A0_matrix p) (\<lambda>A.
           Inr \<lparr> n_x = n_x p, x_coords = x_coords p, n1 = n1 p, n2 = n2 p, n_cst = n_cst p,
                 A0 = A \<rparr>))"

subsection \<open>The external numerical routines\<close>

text \<open>
  \<open>numpy.linalg.lstsq\<close> and \<open>scipy.optimize.minimize\<close> are library code. They are
  parameters of the model: \<open>lstsq env A b\<close> is the first component of
  \<open>lstsq(A, b, rcond=None)\<close>, or the exception it raises, and \<open>minimize env f x0\<close> the
  result object of \<open>minimize(f, x0, method="Nelder-Mead")\<close>, of which the code reads
  the final iterate \<open>x\<close>; \<open>success\<close> is its convergence flag.
\<close>

record opt_result =
  opt_x :: "npfloat list"
  opt_success :: bool

record numerics =
  lstsq :: "npfloat list list \<Rightarrow> real list \<Rightarrow> py_error + npfloat list"
  minimize :: "(npfloat list \<Rightarrow> py_error + npfloat) \<Rightarrow> npfloat list \<Rightarrow> py_error + opt_result"

subsection \<open>The three fits\<close>

text \<open>
  \<open>fit_CST\<close>: \<open>yu = y_coords[:n_x][::-1]\<close>, \<open>yl = y_coords[n_x - 1:]\<close>,
  \<open>te = (yu[-1] - yl[-1]) / 2\<close>, then one least-squares solve per surface against
  \<open>y - x_coords * y[-1]\<close>. The argument \<open>n_x\<close> is the method's own, not the layer's.
\<close>

definition fit_CST ::
  "numerics \<Rightarrow> 'a cst_params_scheme \<Rightarrow> real list \<Rightarrow> int
    \<Rightarrow> py_error + (npfloat list \<times> npfloat list \<times> real)" where
  "fit_CST env c y_coords nx =
     py_bind (A0_matrix c) (\<lambda>A.
     let yu = rev (py_slice_to nx y_coords);
         yl = py_slice_from (nx - 1) y_coords
     in
     py_bind (py_last yu) (\<lambda>yu_last.
     py_bind (py_last yl) (\<lambda>yl_last.
     let te = (yu_last - yl_last) / 2 in
     py_bind (np_broadcast2 (\<lambda>v w. v - w) yu (map (\<lambda>x. x * yu_last) (x_coords c))) (\<lambda>bu.
     py_bind (lstsq env A bu) (\<lambda>au.
     py_bind (np_broadcast2 (\<lambda>v w. v - w) yl (map (\<lambda>x. x * yl_last) (x_coords c))) (\<lambda>bl.
     py_bind (lstsq env A bl) (\<lambda>al.
       Inr (au, al, te))))))))"

definition fit_CST_up ::
  "numerics \<Rightarrow> 'a cst_params_scheme \<Rightarrow> real list \<Rightarrow> int \<Rightarrow> py_error + (npfloat list \<times> real)" where
  "fit_CST_up env c y_coords nx =
     py_bind (A0_matrix c) (\<lambda>A.
     let yu = rev (py_slice_to nx y_coords);
         yl = py_slice_from (nx - 1) y_coords
     in
     py_bind (py_last yu) (\<lambda>yu_last.
     py_bind (py_last yl) (\<lambda>yl_last.
     let te = (yu_last - yl_last) / 2 in
     py_bind (np_broadcast2 (\<lambda>v w. v - w) yu (map (\<lambda>x. x * yu_last) (x_coords c))) (\<lambda>bu.
     py_bind (lstsq env A bu) (\<lambda>au.
       Inr (au, te))))))"

definition fit_CST_low ::
  "numerics \<Rightarrow> 'a cst_params_scheme \<Rightarrow> real list \<Rightarrow> int \<Rightarrow> py_error + (npfloat list \<times> real)" where
  "fit_CST_low env c y_coords nx =
     py_bind (A0_matrix c) (\<lambda>A.
     let yu = rev (py_slice_to nx y_coords);
         yl = py_slice_from (nx - 1) y_coords
     in
     py_bind (py_last yu) (\<lambda>yu_last.
     py_bind (py_last yl) (\<lambda>yl_last.
     let te = (yu_last - yl_last) / 2 in
     py_bind (np_broadcast2 (\<lambda>v w. v - w) yl (map (\<lambda>x. x * yl_last) (x_coords c))) (\<lambda>bl.
     py_bind (lstsq env A bl) (\<lambda>al.
       Inr (al, te))))))"

text \<open>
  The least-squares property over the reals: \<open>a\<close> has one coefficient per column and
  no other coefficient vector has a smaller residual 2-norm \<open>\<parallel>A a - b\<parallel>\<close>.
\<close>

definition dot :: "real list \<Rightarrow> real list \<Rightarrow> real" where
  "dot u v = sum_list (map2 (\<lambda>p q. p * q) u v)"

definition residual_norm :: "real list list \<Rightarrow> real list \<Rightarrow> real list \<Rightarrow> real" where
  "residual_norm A b a = sqrt (sum_list (map2 (\<lambda>row bi. (dot row a - bi)\<^sup>2) A b))"

definition least_squares :: "real list list \<Rightarrow> real list \<Rightarrow> real list \<Rightarrow> bool" where
  "least_squares A b a =
     (list_all (\<lambda>row. length row = length a) A \<and>
      (\<forall>a'. length a' = length a \<longrightarrow> residual_norm A b a \<le> residual_norm A b a'))"

text \<open>
  A solver that answers zero coefficients, one per column: the minimum-norm
  least-squares solution whenever the right-hand side is orthogonal to the columns,
  as it is for a zero matrix or a zero right-hand side.
\<close>

definition zero_lstsq :: "npfloat list list \<Rightarrow> real list \<Rightarrow> py_error + npfloat list" where
  "zero_lstsq A b =
     (if length A = length b \<and> A \<noteq> [] then Inr (replicate (length (hd A)) (Fin 0))
      else Inl LinAlgError)"

text \<open>
  What the fit expects of \<open>lstsq\<close> for a basis matrix with the finite entries \<open>A\<close>:
  for every right-hand side of as many entries as \<open>A\<close> has rows it returns a
  least-squares solution.
\<close>

definition solves_for :: "numerics \<Rightarrow> real list list \<Rightarrow> bool" where
  "solves_for env A =
     (\<forall>b. length b = length A \<longrightarrow>
        (\<exists>a. lstsq env (map (map Fin) A) b = Inr (map Fin a) \<and> least_squares A b a))"

text \<open>
  Concrete routines for the closed instances whose right-hand sides are zero: the
  zero solver, and a minimiser that stops at the initial guess and reports success.
\<close>

definition example_numerics :: numerics where
  "example_numerics =
     \<lparr> lstsq = zero_lstsq,
       minimize = (\<lambda>f x0. Inr \<lparr> opt_x = x0, opt_success = True \<rparr>) \<rparr>"

text \<open>
  A least-squares solver for matrices of two columns with full column rank, where
  the solution is unique: it solves the normal equations
  \<open>transpose(A) A a = transpose(A) b\<close> by Cramer's rule. It stands for \<open>lstsq\<close> on
  such matrices only, and answers with an error on every other one.
\<close>

definition gram_lstsq :: "npfloat list list \<Rightarrow> real list \<Rightarrow> py_error + npfloat list" where
  "gram_lstsq A b =
     (if length A = length b \<and> list_all (\<lambda>row. length row = 2 \<and> list_all is_fin row) A then
        let p = map (\<lambda>row. fin_val (row ! 0)) A;
            q = map (\<lambda>row. fin_val (row ! 1)) A;
            det = dot p p * dot q q - dot p q * dot p q
        in if det = 0 then Inl LinAlgError
           else Inr [Fin ((dot q q * dot p b - dot p q * dot q b) / det),
                     Fin ((dot p p * dot q b - dot p q * dot p b) / det)]
      else Inl LinAlgError)"

definition gram_numerics :: numerics where
  "gram_numerics =
     \<lparr> lstsq = gram_lstsq,
       minimize = (\<lambda>f x0. Inr \<lparr> opt_x = x0, opt_success = True \<rparr>) \<rparr>"

text \<open>
  A layer of degree 1 over the four stations \<open>0\<close>, \<open>1/4\<close>, \<open>9/16\<close> and \<open>1\<close> with
  the default exponents, the values of its two basis functions
  \<open>x ** 0.5 * (1 - x) ** 2\<close> and \<open>x ** 1.5 * (1 - x)\<close> at these stations, and seven
  ordinates from the upper trailing edge over the leading edge to the lower
  trailing edge. The ordinates are those of the upper coefficients \<open>(1, 1)\<close> and the
  lower coefficients \<open>(- 1, 1)\<close> with the trailing-edge ordinates \<open>1/8\<close> and
  \<open>- 1/8\<close>, but for the leading edge, which is lifted to \<open>1/16\<close> where both basis
  functions vanish: no coefficients fit it.
\<close>

definition coarse_params :: cst_params where
  "coarse_params = \<lparr> n_x = 4, x_coords = [0, 1 / 4, 9 / 16, 1], n1 = 1 / 2, n2 = 1, n_cst = 1 \<rparr>"

definition coarse_basis :: "real list list" where
  "coarse_basis = [[0, 0], [9 / 32, 3 / 32], [147 / 1024, 189 / 1024], [0, 0]]"

definition coarse_ordinates :: "real list" where
  "coarse_ordinates = [1 / 8, 51 / 128, 13 / 32, 1 / 16, - (7 / 32), - (15 / 512), - (1 / 8)]"
section \<open>PARSEC features (\<open>parsec_direct_n15.py\<close>, class \<open>Fit_airfoil\<close>)\<close>

subsection \<open>numpy reductions and \<open>math\<close> functions\<close>

definition np_sum :: "npfloat list \<Rightarrow> npfloat" where
  "np_sum xs = foldl np_add (Fin 0) xs"

text \<open>\<open>A.dot(v)\<close> for a matrix and a vector; numpy raises when a row is not as long as \<open>v\<close>.\<close>

definition np_matvec :: "npfloat list list \<Rightarrow> npfloat list \<Rightarrow> py_error + npfloat list" where
  "np_matvec A v =
     (if list_all (\<lambda>row. length row = length v) A
      then Inr (map (\<lambda>row. np_sum (map2 np_mul row v)) A)
      else Inl (ValueError ''shapes not aligned''))"

text \<open>
  The order of floats that are not \<open>nan\<close>. \<open>max\<close> and \<open>min\<close> return \<open>nan\<close> if the
  array holds one, \<open>argmax\<close> and \<open>argmin\<close> the position of the first \<open>nan\<close> and
  otherwise of the first extremum; all four raise on an empty array.
\<close>

fun np_le :: "npfloat \<Rightarrow> npfloat \<Rightarrow> bool" where
  "np_le (Fin a) (Fin b) = (a \<le> b)"
| "np_le NInf _ = True"
| "np_le _ PInf = True"
| "np_le _ _ = False"

definition np_max2 :: "npfloat \<Rightarrow> npfloat \<Rightarrow> npfloat" where
  "np_max2 a b = (if a = NaN \<or> b = NaN then NaN else if np_le a b then b else a)"

definition np_min2 :: "npfloat \<Rightarrow> npfloat \<Rightarrow> npfloat" where
  "np_min2 a b = (if a = NaN \<or> b = NaN then NaN else if np_le a b then a else b)"

definition np_amax :: "npfloat list \<Rightarrow> py_error + npfloat" where
  "np_amax xs =
     (case xs of [] \<Rightarrow> Inl (ValueError ''zero-size array'') | x # rest \<Rightarrow> Inr (foldl np_max2 x rest))"

definition np_amin :: "npfloat list \<Rightarrow> py_error + npfloat" where
  "np_amin xs =
     (case xs of [] \<Rightarrow> Inl (ValueError ''zero-size array'') | x # rest \<Rightarrow> Inr (foldl np_min2 x rest))"

fun argmax_scan :: "nat \<Rightarrow> npfloat \<Rightarrow> nat \<Rightarrow> npfloat list \<Rightarrow> nat" where
  "argmax_scan bi bv i [] = bi"
| "argmax_scan bi bv i (x # xs) =
     (if bv = NaN then bi
      else if x = NaN \<or> \<not> np_le x bv then argmax_scan i x (Suc i) xs
      else argmax_scan bi bv (Suc i) xs)"

fun argmin_scan :: "nat \<Rightarrow> npfloat \<Rightarrow> nat \<Rightarrow> npfloat list \<Rightarrow> nat" where
  "argmin_scan bi bv i [] = bi"
| "argmin_scan bi bv i (x # xs) =
     (if bv = NaN then bi
      else if x = NaN \<or> \<not> np_le bv x then argmin_scan i x (Suc i) xs
      else argmin_scan bi bv (Suc i) xs)"

definition np_argmax :: "npfloat list \<Rightarrow> py_error + nat" where
  "np_argmax xs =
     (case xs of [] \<Rightarrow> Inl (ValueError ''zero-size array'')
      | x # rest \<Rightarrow> Inr (argmax_scan 0 x 1 rest))"

definition np_argmin :: "npfloat list \<Rightarrow> py_error + nat" where
  "np_argmin xs =
     (case xs of [] \<Rightarrow> Inl (ValueError ''zero-size array'')
      | x # rest \<Rightarrow> Inr (argmin_scan 0 x 1 rest))"

text \<open>
  \<open>np.std\<close> of all entries (zero degrees of freedom); the mean of no entries is
  \<open>nan\<close>.
\<close>

definition np_std :: "real list \<Rightarrow> npfloat" where
  "np_std vs =
     (if vs = [] then NaN
      else let m = sum_list vs / real (length vs)
           in Fin (sqrt (sum_list (map (\<lambda>v. (v - m)\<^sup>2) vs) / real (length vs))))"

text \<open>
  \<open>np.arange(start, stop, step)\<close> for a positive step has
  \<open>ceil((stop - start) / step)\<close> entries \<open>start + i * step\<close>.
\<close>

definition np_arange :: "real \<Rightarrow> real \<Rightarrow> real \<Rightarrow> real list" where
  "np_arange start stop stp =
     map (\<lambda>i. start + real i * stp) [0..<nat \<lceil>(stop - start) / stp\<rceil>]"

fun math_atan :: "npfloat \<Rightarrow> npfloat" where
  "math_atan (Fin a) = Fin (arctan a)"
| "math_atan PInf = Fin (pi / 2)"
| "math_atan NInf = Fin (- (pi / 2))"
| "math_atan NaN = NaN"

fun math_degrees :: "npfloat \<Rightarrow> npfloat" where
  "math_degrees (Fin a) = Fin (a * 180 / pi)"
| "math_degrees PInf = PInf"
| "math_degrees NInf = NInf"
| "math_degrees NaN = NaN"

subsection \<open>The feature extraction\<close>

text \<open>
  The input \<open>data\<close> is an array of shape \<open>(npoints, 2)\<close> of finite floats: a list of
  points \<open>(x, y)\<close>.

  The slope of the first segment, \<open>(data[0, 1] - data[1, 1]) / (data[0, 0] - data[1, 0])\<close>,
  is a division of numpy floats: a zero denominator gives \<open>inf\<close> or \<open>nan\<close>, not an
  exception. The angle is \<open>math.degrees(math.atan(a))\<close>.
\<close>

definition slope_angle :: "(real \<times> real) list \<Rightarrow> py_error + npfloat" where
  "slope_angle data =
     py_bind (np_get data 0) (\<lambda>p0.
     py_bind (np_get data 1) (\<lambda>p1.
       let a = np_div (Fin (snd p0 - snd p1)) (Fin (fst p0 - fst p1))
       in Inr (math_degrees (math_atan a))))"

text \<open>The dense station grid \<open>x2 = np.arange(0, 1.001, 0.0001)\<close>.\<close>

definition dense_grid :: "real list" where
  "dense_grid = np_arange 0 (1001 / 1000) (1 / 10000)"

text \<open>
  \<open>a, b, c = xs\<close> raises \<open>ValueError\<close> unless \<open>xs\<close> has exactly three entries.
\<close>

definition unpack3 :: "'a list \<Rightarrow> py_error + ('a \<times> 'a \<times> 'a)" where
  "unpack3 xs =
     (case xs of
        [a, b, c] \<Rightarrow> Inr (a, b, c)
      | _ \<Rightarrow> Inl (ValueError ''wrong number of values to unpack''))"

text \<open>
  \<open>objective(params, x, y)\<close>: the sum of the squared deviations of the distances
  between the points and the centre \<open>(xc, yc)\<close> from the radius \<open>r\<close>.
\<close>

definition objective :: "npfloat list \<Rightarrow> real list \<Rightarrow> real list \<Rightarrow> py_error + npfloat" where
  "objective params x y =
     py_bind (unpack3 params) (\<lambda>(xc, yc, r).
       Inr (np_sum (map2 (\<lambda>xi yi.
              let dx = np_sub (Fin xi) xc; dy = np_sub (Fin yi) yc;
                  dev = np_sub (np_sqrt (np_add (np_mul dx dx) (np_mul dy dy))) r
              in np_mul dev dev) x y)))"

text \<open>
  \<open>get_parsec_n15\<close>, statement by statement. The layers are built with
  \<open>n_cst = 12\<close> and the default exponents \<open>n1 = 0.5\<close> and \<open>n2 = 1.0\<close>; \<open>cst2.A0\<close> is
  the matrix stored by \<open>__init__\<close>.
\<close>

definition get_parsec_n15 :: "numerics \<Rightarrow> (real \<times> real) list \<Rightarrow> py_error + npfloat list" where
  "get_parsec_n15 env data =
     (let x = map fst data; y = map snd data in
      py_bind (slope_angle data) (\<lambda>angle.
      py_bind (CSTLayer_init (Some (rev (py_slice_to 129 x))) 12 129 (1 / 2) 1) (\<lambda>cst.
      py_bind (fit_CST env cst y 129) (\<lambda>(au, al, te).
      let x2 = dense_grid in
      py_bind (CSTLayer_init (Some x2) 12 129 (1 / 2) 1) (\<lambda>cst2.
      py_bind (np_matvec (A0 cst2) au) (\<lambda>pu.
      py_bind (np_broadcast2 np_add pu (map (\<lambda>s. Fin (s * te)) (x_coords cst2))) (\<lambda>yu.
      py_bind (np_matvec (A0 cst2) al) (\<lambda>pl.
      py_bind (np_broadcast2 np_sub pl (map (\<lambda>s. Fin (s * te)) (x_coords cst2))) (\<lambda>yl.
      py_bind (np_get yu 400) (\<lambda>t4u.
      py_bind (np_get yu 2500) (\<lambda>t25u.
      py_bind (np_get yu 6000) (\<lambda>t60u.
      py_bind (np_get yl 400) (\<lambda>t4l.
      py_bind (np_get yl 2500) (\<lambda>t25l.
      py_bind (np_get yl 6000) (\<lambda>t60l.
      let te1 = Fin te in
      py_bind (np_amax yu) (\<lambda>yumax.
      py_bind (np_amin yl) (\<lambda>ylmax.
      py_bind (py_bind (np_argmax yu) (np_get x2)) (\<lambda>xumax.
      py_bind (py_bind (np_argmin yl) (np_get x2)) (\<lambda>xlmax.
      py_bind (np_amax yl) (\<lambda>yr.
      py_bind (py_bind (np_argmax yl) (np_get x2)) (\<lambda>xr.
      let points = drop 126 (take 131 data);
          xdata = map fst points;
          ydata = map snd points;
          initial_guess = [Fin (25 / 10000), Fin 0, np_std (xdata @ ydata)]
      in
      py_bind (minimize env (\<lambda>p. objective p xdata ydata) initial_guess) (\<lambda>result.
      py_bind (unpack3 (opt_x result)) (\<lambda>(xc, yc, r).
      let rf = r in
        Inr [rf, t4u, t4l, Fin xumax, yumax, Fin xlmax, ylmax, t25u, t25l, angle, te1,
             Fin xr, yr, t60u, t60l])))))))))))))))))))))))"

text \<open>
  Names for the statements below: the matrix that \<open>A0_matrix\<close> returns for a layer
  whose \<open>n_x\<close> is the number of its stations, and the two curves that
  \<open>get_parsec_n15\<close> reconstructs on the dense grid from fitted coefficients,
  \<open>yu = A0 au + x2 te\<close> and \<open>yl = A0 al - x2 te\<close>.
\<close>

definition basis_matrix :: "nat \<Rightarrow> real \<Rightarrow> real \<Rightarrow> real list \<Rightarrow> npfloat list list" where
  "basis_matrix n e1 e2 xs =
     map (\<lambda>i. map (\<lambda>r. A0_row n e1 e2 xs r ! i) [0..<n + 1]) [0..<length xs]"

definition dense_upper :: "npfloat list \<Rightarrow> real \<Rightarrow> npfloat list" where
  "dense_upper au te =
     map2 (\<lambda>row s. np_add (np_sum (map2 np_mul row au)) (Fin (s * te)))
       (basis_matrix 12 (1 / 2) 1 dense_grid) dense_grid"

definition dense_lower :: "npfloat list \<Rightarrow> real \<Rightarrow> npfloat list" where
  "dense_lower al te =
     map2 (\<lambda>row s. np_sub (np_sum (map2 np_mul row al)) (Fin (s * te)))
       (basis_matrix 12 (1 / 2) 1 dense_grid) dense_grid"

text \<open>The layer that \<open>CSTLayer(n_cst=12, x_coords=xs)\<close> builds.\<close>

definition fit_layer :: "real list \<Rightarrow> cst_layer" where
  "fit_layer xs =
     \<lparr> n_x = length xs, x_coords = xs, n1 = 1 / 2, n2 = 1, n_cst = 12,
       A0 = basis_matrix 12 (1 / 2) 1 xs \<rparr>"

text \<open>
  What the feature extraction expects of the two routines: \<open>lstsq\<close> returns one
  coefficient per column for every matrix of finite entries (it does not raise on a
  rank-deficient matrix), and \<open>minimize\<close>, given an objective that returns a value
  on every iterate of the shape of the initial guess, returns a result whose final
  iterate has that shape. An objective that raises is outside this contract: the
  minimiser lets its exception through.
\<close>

definition lstsq_returns :: "numerics \<Rightarrow> bool" where
  "lstsq_returns env =
     (\<forall>A b. A \<noteq> [] \<and> list_all (list_all is_fin) A \<and> length b = length A \<longrightarrow>
        (\<exists>a. lstsq env A b = Inr a \<and> length a = length (hd A)))"

definition minimize_returns :: "numerics \<Rightarrow> bool" where
  "minimize_returns env =
     (\<forall>f x0. (\<forall>p. length p = length x0 \<longrightarrow> \<not> isl (f p)) \<longrightarrow>
        (\<exists>res. minimize env f x0 = Inr res \<and> length (opt_x res) = length x0))"

text \<open>
  Concrete inputs for the closed instances. \<open>flat_plate\<close> is a well-formed sample of
  257 points, from the upper trailing edge \<open>x = 1\<close> over the leading edge \<open>x = 0\<close>
  back to the lower trailing edge, with every ordinate zero. \<open>short_plate\<close> is its
  upper half alone (129 points). \<open>skewed_plate\<close> has 257 points, but from row 131 on its lower
  stations are the squares of the upper ones. \<open>blunt_plate\<close> starts with a vertical
  segment at the trailing edge: its first two points share \<open>x = 1\<close>. On all of them but
  the last the right-hand sides of both fits are zero, so that the zero coefficients
  of \<open>example_numerics\<close> are the minimum-norm least-squares solution.
  \<open>stalled_numerics\<close> is \<open>example_numerics\<close> with a minimiser that reports
  non-convergence.
\<close>

definition flat_plate :: "(real \<times> real) list" where
  "flat_plate = map (\<lambda>i. (\<bar>128 - real i\<bar> / 128, 0)) [0..<257]"

definition short_plate :: "(real \<times> real) list" where
  "short_plate = map (\<lambda>i. (\<bar>128 - real i\<bar> / 128, 0)) [0..<129]"

definition skewed_plate :: "(real \<times> real) list" where
  "skewed_plate =
     map (\<lambda>i. (if i \<le> 130 then \<bar>128 - real i\<bar> / 128 else ((real i - 128) / 128)\<^sup>2, 0))
       [0..<257]"

definition blunt_plate :: "(real \<times> real) list" where
  "blunt_plate = (1, 1 / 100) # map (\<lambda>i. (\<bar>129 - real i\<bar> / 128, 0)) [1..<257]"

text \<open>
  \<open>wedge_plate\<close> is a well-formed sample of 257 points with the ordinates \<open>y = x\<close>
  on the upper and \<open>y = - x\<close> on the lower surface: its trailing edge is open, with
  the half thickness \<open>te = 1\<close>, its first segment has the slope 1, and here too the
  right-hand sides \<open>y - x * y[-1]\<close> of both fits are zero. \<open>probing_numerics\<close> has
  a minimiser that evaluates the objective at the initial guess, lets an exception
  of the objective through, and otherwise stops at the guess.
\<close>

definition wedge_plate :: "(real \<times> real) list" where
  "wedge_plate = map (\<lambda>i. (\<bar>128 - real i\<bar> / 128, (128 - real i) / 128)) [0..<257]"

definition probing_numerics :: numerics where
  "probing_numerics =
     \<lparr> lstsq = zero_lstsq,
       minimize = (\<lambda>f x0. py_bind (f x0) (\<lambda>v. Inr \<lparr> opt_x = x0, opt_success = True \<rparr>)) \<rparr>"

definition stalled_numerics :: numerics where
  "stalled_numerics =
     \<lparr> lstsq = zero_lstsq,
       minimize = (\<lambda>f x0. Inr \<lparr> opt_x = x0, opt_success = False \<rparr>) \<rparr>"

section \<open>Theorems: the diffusion model\<close>

lemma no_size_error_bind:
  assumes "no_size_error m" and "\<And>v s. no_size_error (f v s)"
  shows "no_size_error (eff_bind m f)"
  using assms by (cases m) (auto simp: eff_bind_def no_size_error_def split: sum.splits)

lemma no_size_error_extract: "no_size_error (lift_err (extract_t a t) s)"
  by (simp add: no_size_error_def lift_err_def extract_t_def)

lemma no_size_error_get: "no_size_error (lift_err (np_get xs i) s)"
  by (simp add: no_size_error_def lift_err_def np_get_def)

lemma no_size_error_net: "no_size_error (call_net net x t y s)"
  by (simp add: no_size_error_def call_net_def)

lemma no_size_error_randn: "no_size_error (torch_randn g b l c s)"
  by (simp add: no_size_error_def torch_randn_def)

lemma no_size_error_randn_like: "no_size_error (torch_randn_like g x s)"
  by (simp add: no_size_error_def torch_randn_like_def)

lemma no_size_error_ret: "no_size_error (Inr v, s)"
  by (simp add: no_size_error_def)

lemmas nse = no_size_error_bind no_size_error_extract no_size_error_get no_size_error_net
  no_size_error_randn no_size_error_randn_like no_size_error_ret

lemma no_size_error_remove_noise: "no_size_error (remove_noise d x t y u s)"
  unfolding remove_noise_def by (intro nse)

lemma no_size_error_sample_step: "no_size_error (sample_step d g b y u t x s)"
  unfolding sample_step_def Let_def
  by (intro no_size_error_bind no_size_error_remove_noise) (auto intro!: nse)

lemma no_size_error_sample_loop: "no_size_error (sample_loop d g b y u ts x s)"
proof (induction ts arbitrary: x s)
  case Nil
  show ?case by (simp add: no_size_error_ret)
next
  case (Cons t ts)
  show ?case
  proof (cases "sample_step d g b y u t x s")
    case (Pair r s1)
    with no_size_error_sample_step [of d g b y u t x s] Cons.IH show ?thesis
      by (cases r) (auto simp: no_size_error_def)
  qed
qed

lemma no_size_error_diffusion_sequence_loop:
  "no_size_error (diffusion_sequence_loop d g b y u ts x acc s)"
proof (induction ts arbitrary: x acc s)
  case Nil
  show ?case by (simp add: no_size_error_ret)
next
  case (Cons t ts)
  show ?case
  proof (cases "sample_step d g b y u t x s")
    case (Pair r s1)
    with no_size_error_sample_step [of d g b y u t x s] Cons.IH show ?thesis
      by (cases r) (auto simp: no_size_error_def)
  qed
qed

lemma no_size_error_seq: "no_size_error (lift_err (ddim_timestep_seq T n) s)"
  by (simp add: no_size_error_def lift_err_def ddim_timestep_seq_def Let_def)

lemma pick_fixed_error: "pick_fixed idx xb = Inl e \<Longrightarrow> e = IndexError"
  by (auto simp: pick_fixed_def split: if_splits)

lemma repaint_rows_error: "repaint_rows idx xs gs = Inl e \<Longrightarrow> e = IndexError \<or> e = RuntimeError"
proof (induction idx xs gs rule: repaint_rows.induct)
  case (2 idx xb xs gb gs)
  then show ?case
    by (auto simp: py_bind_def split: sum.splits dest: pick_fixed_error)
qed simp_all

lemma no_size_error_repaint: "no_size_error (lift_err (repaint_rows idx xs gs) s)"
  using repaint_rows_error [of idx xs gs]
  by (cases "repaint_rows idx xs gs") (auto simp: no_size_error_def lift_err_def)

lemma no_size_error_perturb: "no_size_error (lift_err (perturb_x d x t z) s)"
  by (simp add: no_size_error_def lift_err_def perturb_x_def py_bind_def extract_t_def)

lemma no_size_error_type: "no_size_error (Inl TypeError, s)"
  by (simp add: no_size_error_def)

lemma no_size_error_ddim_step:
  "no_size_error (ddim_step d g b y u clip gt fx seq prev i x s)"
proof (cases fx)
  case None
  show ?thesis
    unfolding ddim_step_def Let_def None option.case by (intro nse)
next
  case fx_some: (Some idx)
  show ?thesis
  proof (cases gt)
    case None
    show ?thesis
      unfolding ddim_step_def Let_def fx_some None option.case
      by (intro nse no_size_error_type)
  next
    case (Some gtv)
    show ?thesis
      unfolding ddim_step_def Let_def fx_some Some option.case
      by (intro nse no_size_error_repaint no_size_error_perturb)
  qed
qed

lemma no_size_error_ddim_loop:
  "no_size_error (ddim_loop d g b y u clip gt fx seq prev js x s)"
proof (induction js arbitrary: x s)
  case Nil
  show ?case by (simp add: no_size_error_ret)
next
  case (Cons i js)
  show ?case
  proof (cases "ddim_step d g b y u clip gt fx seq prev i x s")
    case (Pair r s1)
    with no_size_error_ddim_step [of d g b y u clip gt fx seq prev i x s] Cons.IH
    show ?thesis
      by (cases r) (auto simp: no_size_error_def)
  qed
qed

lemma no_size_error_ddim_sequence_loop:
  "no_size_error (ddim_sequence_loop d g b y u clip seq prev js x ans s)"
proof (induction js arbitrary: x ans s)
  case Nil
  show ?case by (simp add: no_size_error_ret)
next
  case (Cons i js)
  show ?case
  proof (cases "ddim_step d g b y u clip None None seq prev i x s")
    case (Pair r s1)
    with no_size_error_ddim_step [of d g b y u clip None None seq prev i x s] Cons.IH
    show ?thesis
      by (cases r) (auto simp: no_size_error_def)
  qed
qed

lemma sample_guard_passes:
  assumes "y = None \<or> y = Some ys \<and> batch_size = int (length ys)"
  shows "no_size_error (sample d g batch_size y u s)"
    and "no_size_error (sample_diffusion_sequence d g batch_size y u s)"
    and "no_size_error (sample_ddim d g batch_size y u clip gt fx s)"
    and "no_size_error (sample_ddim_sequence d g batch_size y u clip s)"
  using assms
  unfolding sample_def sample_diffusion_sequence_def sample_ddim_def sample_ddim_sequence_def
  by (auto intro!: nse no_size_error_sample_loop no_size_error_diffusion_sequence_loop
        no_size_error_seq no_size_error_ddim_loop no_size_error_ddim_sequence_loop)

text \<open>
  Claim C8. Each of \<open>sample\<close>, \<open>sample_ddim\<close>, \<open>sample_ddim_sequence\<close> and
  \<open>sample_diffusion_sequence\<close>, given a condition \<open>y\<close> that is not \<open>None\<close> and whose
  length differs from \<open>batch_size\<close>, raises the \<open>ValueError\<close> of the guard and leaves
  the run as it was: no noise has been drawn and no denoiser called. When \<open>y\<close> is
  \<open>None\<close> or the lengths match, none of the four ends in that \<open>ValueError\<close>, whatever
  else the sampling loop does.
\<close>
theorem sampling_validates_condition_length:
  "(y = Some ys \<and> batch_size \<noteq> int (length ys) \<longrightarrow>
      sample d g batch_size y use_ema s =
        (Inl (ValueError ''sample batch size different from length of given y''), s) \<and>
      sample_ddim d g batch_size y use_ema clip gt fx s =
        (Inl (ValueError ''sample batch size different from length of given y''), s) \<and>
      sample_ddim_sequence d g batch_size y use_ema clip s =
        (Inl (ValueError ''sample batch size different from length of given y''), s) \<and>
      sample_diffusion_sequence d g batch_size y use_ema s =
        (Inl (ValueError ''sample batch size different from length of given y''), s)) \<and>
   (y = None \<or> y = Some ys \<and> batch_size = int (length ys) \<longrightarrow>
      fst (sample d g batch_size y use_ema s) \<noteq>
        Inl (ValueError ''sample batch size different from length of given y'') \<and>
      fst (sample_ddim d g batch_size y use_ema clip gt fx s) \<noteq>
        Inl (ValueError ''sample batch size different from length of given y'') \<and>
      fst (sample_ddim_sequence d g batch_size y use_ema clip s) \<noteq>
        Inl (ValueError ''sample batch size different from length of given y'') \<and>
      fst (sample_diffusion_sequence d g batch_size y use_ema s) \<noteq>
        Inl (ValueError ''sample batch size different from length of given y''))"
proof (intro conjI impI)
  assume m: "y = Some ys \<and> batch_size \<noteq> int (length ys)"
  then show "sample d g batch_size y use_ema s =
        (Inl (ValueError ''sample batch size different from length of given y''), s)"
    by (simp add: sample_def)
  from m show "sample_ddim d g batch_size y use_ema clip gt fx s =
        (Inl (ValueError ''sample batch size different from length of given y''), s)"
    by (simp add: sample_ddim_def)
  from m show "sample_ddim_sequence d g batch_size y use_ema clip s =
        (Inl (ValueError ''sample batch size different from length of given y''), s)"
    by (simp add: sample_ddim_sequence_def)
  from m show "sample_diffusion_sequence d g batch_size y use_ema s =
        (Inl (ValueError ''sample batch size different from length of given y''), s)"
    by (simp add: sample_diffusion_sequence_def)
next
  assume ok: "y = None \<or> y = Some ys \<and> batch_size = int (length ys)"
  from sample_guard_passes(1) [OF ok]
  show "fst (sample d g batch_size y use_ema s) \<noteq>
        Inl (ValueError ''sample batch size different from length of given y'')"
    by (simp add: no_size_error_def)
  from sample_guard_passes(3) [OF ok]
  show "fst (sample_ddim d g batch_size y use_ema clip gt fx s) \<noteq>
        Inl (ValueError ''sample batch size different from length of given y'')"
    by (simp add: no_size_error_def)
  from sample_guard_passes(4) [OF ok]
  show "fst (sample_ddim_sequence d g batch_size y use_ema clip s) \<noteq>
        Inl (ValueError ''sample batch size different from length of given y'')"
    by (simp add: no_size_error_def)
  from sample_guard_passes(2) [OF ok]
  show "fst (sample_diffusion_sequence d g batch_size y use_ema s) \<noteq>
        Inl (ValueError ''sample batch size different from length of given y'')"
    by (simp add: no_size_error_def)
qed

theorem sampling_validates_condition_length_witness:
  "(Some [(), ()] = Some [(), ()] \<and> (3::int) \<noteq> int (length [(), ()])) \<and>
   sample example_diffusion example_generator 3 (Some [(), ()]) True fresh_run =
     (Inl (ValueError ''sample batch size different from length of given y''), fresh_run) \<and>
   sample_ddim example_diffusion example_generator 3 (Some [(), ()]) True True None None fresh_run =
     (Inl (ValueError ''sample batch size different from length of given y''), fresh_run) \<and>
   (Some [(), ()] = Some [(), ()] \<and> (2::int) = int (length [(), ()])) \<and>
   fst (sample example_diffusion example_generator 2 (Some [(), ()]) True fresh_run) \<noteq>
     Inl (ValueError ''sample batch size different from length of given y'') \<and>
   fst (sample_ddim example_diffusion example_generator 2 (Some [(), ()]) True True None None
          fresh_run) \<noteq>
     Inl (ValueError ''sample batch size different from length of given y'')"
  using
    sampling_validates_condition_length [where y = "Some [(), ()]" and ys = "[(), ()]"
      and batch_size = 3 and d = example_diffusion and g = example_generator
      and use_ema = True and clip = True and gt = None and fx = None and s = fresh_run]
    sampling_validates_condition_length [where y = "Some [(), ()]" and ys = "[(), ()]"
      and batch_size = 2 and d = example_diffusion and g = example_generator
      and use_ema = True and clip = True and gt = None and fx = None and s = fresh_run]
  by simp

text \<open>
  Claim C10. \<open>PointDiTDiffusion.__init__\<close> with a \<open>loss_type\<close> other than \<open>"l1"\<close> and
  \<open>"l2"\<close> raises \<open>ValueError("__init__() got unknown loss type")\<close>; with \<open>"l1"\<close> or
  \<open>"l2"\<close> it raises nothing and returns the model, which stores that loss type and one
  time step per entry of \<open>betas\<close>.
\<close>
theorem init_validates_loss_type:
  "(ltype \<noteq> ''l1'' \<and> ltype \<noteq> ''l2'' \<longrightarrow>
      PointDiTDiffusion_init net latent chans bs ltype decay start rate =
        Inl (ValueError ''__init__() got unknown loss type'')) \<and>
   (ltype = ''l1'' \<or> ltype = ''l2'' \<longrightarrow>
      (\<exists>d. PointDiTDiffusion_init net latent chans bs ltype decay start rate = Inr d \<and>
           loss_type d = ltype \<and> num_timesteps d = length bs))"
  by (auto simp: PointDiTDiffusion_init_def Let_def)

theorem init_validates_loss_type_witness:
  "(''huber'' \<noteq> ''l1'' \<and> ''huber'' \<noteq> ''l2'') \<and>
   PointDiTDiffusion_init (\<lambda>x t (y :: unit list option). x) 2 1 [1 / 10, 1 / 5] ''huber''
       (9999 / 10000) 5000 1 =
     Inl (ValueError ''__init__() got unknown loss type'') \<and>
   (\<exists>d. PointDiTDiffusion_init (\<lambda>x t (y :: unit list option). x) 2 1 [1 / 10, 1 / 5] ''l2''
       (9999 / 10000) 5000 1 = Inr d \<and> loss_type d = ''l2'' \<and>
        num_timesteps d = length [1 / 10, 1 / 5 :: real])"
  using
    init_validates_loss_type [where ltype = "''huber''"
      and net = "\<lambda>x t (y :: unit list option). x" and latent = 2 and chans = 1
      and bs = "[1 / 10, 1 / 5]" and decay = "9999 / 10000" and start = 5000 and rate = 1]
    init_validates_loss_type [where ltype = "''l2''"
      and net = "\<lambda>x t (y :: unit list option). x" and latent = 2 and chans = 1
      and bs = "[1 / 10, 1 / 5]" and decay = "9999 / 10000" and start = 5000 and rate = 1]
  by simp

section \<open>Theorems: the CST layer\<close>

lemma fact_ratio_binomial:
  assumes "r \<le> n"
  shows "(fact n / fact r / fact (n - r) :: real) = real (n choose r)"
  using assms by (simp add: binomial_fact)

lemma A0_row_length: "length (A0_row n e1 e2 x r) = length x"
  by (simp add: A0_row_def Let_def)

lemma A0_row_nth:
  assumes "i < length x" "r \<le> n"
  shows "A0_row n e1 e2 x r ! i =
     np_mul (np_mul (Fin (real (n choose r))) (np_power (x ! i) (e1 + real r)))
            (np_power (1 - x ! i) (real n + e2 - real r))"
proof -
  have "fact n / fact r / fact (n - r) = real (n choose r)"
    using assms(2) by (rule fact_ratio_binomial)
  then show ?thesis
    using assms(1) unfolding A0_row_def Let_def by (simp only: nth_map)
qed

lemma np_power_interior: "0 < x \<Longrightarrow> np_power x a = Fin (x powr a)"
  by (simp add: np_power_def)

lemma cst_entry_interior:
  assumes "0 < x" "x < 1"
  shows "np_mul (np_mul (Fin k) (np_power x a)) (np_power (1 - x) b) =
     Fin (k * x powr a * (1 - x) powr b)"
  using assms by (simp add: np_power_interior)

lemma cst_entry_leading:
  assumes "0 < a"
  shows "np_mul (np_mul (Fin k) (np_power 0 a)) (np_power (1 - 0) b) = Fin 0"
  using assms by (simp add: np_power_def)

lemma cst_entry_trailing:
  assumes "0 < b"
  shows "np_mul (np_mul (Fin k) (np_power 1 a)) (np_power (1 - 1) b) = Fin 0"
  using assms by (simp add: np_power_def)

text \<open>
  Claim C2. For stations \<open>x\<close> (with \<open>n_x = len(x)\<close>, as \<open>__init__\<close> sets it), degree \<open>n\<close>
  and exponents \<open>n1\<close>, \<open>n2\<close>, \<open>A0_matrix\<close> returns a matrix of \<open>len(x)\<close> rows and
  \<open>n + 1\<close> columns whose entry at row \<open>i\<close>, column \<open>r\<close> is
  \<open>C(n, r) * x_i ** (n1 + r) * (1 - x_i) ** (n + n2 - r)\<close>; the factorial ratio of the
  code is the binomial coefficient \<open>C(n, r)\<close>. For a station inside the chord,
  \<open>0 < x_i < 1\<close>, the entry is the real number
  \<open>C(n, r) * x_i powr (n1 + r) * (1 - x_i) powr (n + n2 - r)\<close>; at the leading edge
  \<open>x_i = 0\<close> with \<open>n1 > 0\<close> and at the trailing edge \<open>x_i = 1\<close> with \<open>n2 > 0\<close> it
  is zero.
\<close>

theorem A0_matrix_shape_and_entries:
  assumes "n_x c = length (x_coords c)"
  shows "\<exists>A. A0_matrix c = Inr A \<and> length A = length (x_coords c) \<and>
     (\<forall>i < length (x_coords c). length (A ! i) = n_cst c + 1 \<and>
        (\<forall>r \<le> n_cst c.
           A ! i ! r =
             np_mul (np_mul (Fin (real (n_cst c choose r)))
                            (np_power (x_coords c ! i) (n1 c + real r)))
                    (np_power (1 - x_coords c ! i) (real (n_cst c) + n2 c - real r)) \<and>
           (0 < x_coords c ! i \<and> x_coords c ! i < 1 \<longrightarrow>
              A ! i ! r =
                Fin (real (n_cst c choose r) * (x_coords c ! i) powr (n1 c + real r) *
                     (1 - x_coords c ! i) powr (real (n_cst c) + n2 c - real r))) \<and>
           (x_coords c ! i = 0 \<and> 0 < n1 c \<longrightarrow> A ! i ! r = Fin 0) \<and>
           (x_coords c ! i = 1 \<and> 0 < n2 c \<longrightarrow> A ! i ! r = Fin 0)))"
proof -
  let ?x = "x_coords c" and ?n = "n_cst c"
  let ?rows = "map (A0_row ?n (n1 c) (n2 c) ?x) [0..<?n + 1]"
  let ?A = "map (\<lambda>i. map (\<lambda>row. row ! i) ?rows) [0..<length ?x]"
  have eq: "A0_matrix c = Inr ?A"
    using assms by (simp add: A0_matrix_def Let_def)
  have len: "length ?A = length ?x" by simp
  have ent: "length (?A ! i) = ?n + 1 \<and>
        (\<forall>r \<le> ?n.
           ?A ! i ! r =
             np_mul (np_mul (Fin (real (?n choose r))) (np_power (?x ! i) (n1 c + real r)))
                    (np_power (1 - ?x ! i) (real ?n + n2 c - real r)) \<and>
           (0 < ?x ! i \<and> ?x ! i < 1 \<longrightarrow>
              ?A ! i ! r =
                Fin (real (?n choose r) * (?x ! i) powr (n1 c + real r) *
                     (1 - ?x ! i) powr (real ?n + n2 c - real r))) \<and>
           (?x ! i = 0 \<and> 0 < n1 c \<longrightarrow> ?A ! i ! r = Fin 0) \<and>
           (?x ! i = 1 \<and> 0 < n2 c \<longrightarrow> ?A ! i ! r = Fin 0))"
    if i: "i < length ?x" for i
  proof (intro conjI allI impI)
    show "length (?A ! i) = ?n + 1" using i by simp
  next
    fix r assume r: "r \<le> ?n"
    then have "?A ! i ! r = A0_row ?n (n1 c) (n2 c) ?x r ! i"
      using i by (simp add: nth_append less_Suc_eq_le del: upt_Suc)
    with A0_row_nth [OF i r] show e: "?A ! i ! r =
           np_mul (np_mul (Fin (real (?n choose r))) (np_power (?x ! i) (n1 c + real r)))
                  (np_power (1 - ?x ! i) (real ?n + n2 c - real r))"
      by simp
    {
      assume "0 < ?x ! i \<and> ?x ! i < 1"
      then show "?A ! i ! r =
                Fin (real (?n choose r) * (?x ! i) powr (n1 c + real r) *
                     (1 - ?x ! i) powr (real ?n + n2 c - real r))"
        unfolding e by (intro cst_entry_interior) simp_all
    }
    {
      assume a: "?x ! i = 0 \<and> 0 < n1 c"
      then have "0 < n1 c + real r" by simp
      from cst_entry_leading [OF this] a show "?A ! i ! r = Fin 0"
        unfolding e by simp
    }
    {
      assume a: "?x ! i = 1 \<and> 0 < n2 c"
      then have "0 < real ?n + n2 c - real r" using r by simp
      from cst_entry_trailing [OF this] a show "?A ! i ! r = Fin 0"
        unfolding e by simp
    }
  qed
  from eq len ent show ?thesis by blast
qed

lemma powr_quarter: "(1 / 4 :: real) powr (1 / 2) = 1 / 2" "(1 / 4 :: real) powr (3 / 2) = 1 / 8"
proof -
  have s: "sqrt (1 / 4) = 1 / 2" by (simp add: real_sqrt_divide)
  show 1: "(1 / 4 :: real) powr (1 / 2) = 1 / 2" by (simp add: powr_half_sqrt s)
  have "(1 / 4 :: real) powr (3 / 2) = (1 / 4) powr (1 + 1 / 2)" by simp
  also have "\<dots> = (1 / 4) powr 1 * (1 / 4) powr (1 / 2)" by (rule powr_add)
  finally show "(1 / 4 :: real) powr (3 / 2) = 1 / 8" using 1 by simp
qed

lemma powr_nine_sixteenths:
  "(9 / 16 :: real) powr (1 / 2) = 3 / 4" "(9 / 16 :: real) powr (3 / 2) = 27 / 64"
proof -
  have "sqrt (9 / 16) = 3 / 4" by (rule real_sqrt_unique) (simp_all add: power2_eq_square)
  then show 1: "(9 / 16 :: real) powr (1 / 2) = 3 / 4" by (simp add: powr_half_sqrt)
  have "(9 / 16 :: real) powr (3 / 2) = (9 / 16) powr (1 + 1 / 2)" by simp
  also have "\<dots> = (9 / 16) powr 1 * (9 / 16) powr (1 / 2)" by (rule powr_add)
  finally show "(9 / 16 :: real) powr (3 / 2) = 27 / 64" using 1 by simp
qed

lemma coarse_A0: "A0_matrix coarse_params = Inr (map (map Fin) coarse_basis)"
  by (simp add: A0_matrix_def coarse_params_def coarse_basis_def Let_def A0_row_def np_power_def
        upt_rec numeral_2_eq_2 numeral_3_eq_3 powr_quarter powr_nine_sixteenths)

theorem A0_matrix_shape_and_entries_witness:
  "n_x coarse_params = length (x_coords coarse_params) \<and>
   (\<exists>A. A0_matrix coarse_params = Inr A \<and> length A = 4 \<and>
        length (A ! 1) = 2 \<and>
        A ! 0 ! 0 = Fin 0 \<and> A ! 0 ! 1 = Fin 0 \<and>
        A ! 1 ! 0 = Fin (9 / 32) \<and> A ! 1 ! 1 = Fin (3 / 32) \<and>
        A ! 2 ! 0 = Fin (147 / 1024) \<and> A ! 2 ! 1 = Fin (189 / 1024) \<and>
        A ! 3 ! 0 = Fin 0 \<and> A ! 3 ! 1 = Fin 0)"
proof -
  let ?c = coarse_params
  have x: "n_x ?c = length (x_coords ?c)"
    by (simp add: coarse_params_def)
  have p: "x_coords ?c = [0, 1 / 4, 9 / 16, 1]" "n1 ?c = 1 / 2" "n2 ?c = 1" "n_cst ?c = 1"
    by (simp_all add: coarse_params_def)
  from A0_matrix_shape_and_entries [OF x] obtain A where
    A: "A0_matrix ?c = Inr A" "length A = length (x_coords ?c)"
    and e: "\<forall>i < length (x_coords ?c). length (A ! i) = n_cst ?c + 1 \<and>
        (\<forall>r \<le> n_cst ?c.
           A ! i ! r =
             np_mul (np_mul (Fin (real (n_cst ?c choose r)))
                            (np_power (x_coords ?c ! i) (n1 ?c + real r)))
                    (np_power (1 - x_coords ?c ! i) (real (n_cst ?c) + n2 ?c - real r)) \<and>
           (0 < x_coords ?c ! i \<and> x_coords ?c ! i < 1 \<longrightarrow>
              A ! i ! r =
                Fin (real (n_cst ?c choose r) * (x_coords ?c ! i) powr (n1 ?c + real r) *
                     (1 - x_coords ?c ! i) powr (real (n_cst ?c) + n2 ?c - real r))) \<and>
           (x_coords ?c ! i = 0 \<and> 0 < n1 ?c \<longrightarrow> A ! i ! r = Fin 0) \<and>
           (x_coords ?c ! i = 1 \<and> 0 < n2 ?c \<longrightarrow> A ! i ! r = Fin 0))"
    by blast
  note len_row = e [rule_format, unfolded p, THEN conjunct1]
  note row = e [rule_format, unfolded p, THEN conjunct2, rule_format, THEN conjunct2]
  have lead: "A ! 0 ! 0 = Fin 0" "A ! 0 ! 1 = Fin 0"
    using row [of 0 0] row [of 0 1] by simp_all
  have trail: "A ! 3 ! 0 = Fin 0" "A ! 3 ! 1 = Fin 0"
    using row [of 3 0] row [of 3 1] by simp_all
  have len: "length (A ! 1) = 2" using len_row [of 1] by simp
  have q: "A ! 1 ! 0 = Fin (9 / 32)" "A ! 1 ! 1 = Fin (3 / 32)"
    using row [of 1 0] row [of 1 1] by (simp_all add: powr_quarter power2_eq_square)
  have n: "A ! 2 ! 0 = Fin (147 / 1024)" "A ! 2 ! 1 = Fin (189 / 1024)"
    using row [of 2 0] row [of 2 1]
    by (simp_all add: powr_nine_sixteenths power2_eq_square)
  from A x lead trail len q n show ?thesis by (simp add: p)
qed

lemma fit_CST_run:
  assumes n: "1 \<le> n" and ylen: "length y = 2 * n - 1"
    and xs: "length (x_coords c) = n"
    and A: "A0_matrix c = Inr M"
    and su: "lstsq env M (map2 (\<lambda>v x. v - x * last (rev (take n y))) (rev (take n y)) (x_coords c)) = Inr au"
    and sl: "lstsq env M (map2 (\<lambda>v x. v - x * last (drop (n - 1) y)) (drop (n - 1) y) (x_coords c)) = Inr al"
  shows "fit_CST env c y (int n) =
     Inr (au, al, (last (rev (take n y)) - last (drop (n - 1) y)) / 2)"
proof -
  have t: "py_slice_to (int n) y = take n y" by (simp add: py_slice_to_def)
  have d: "py_slice_from (int n - 1) y = drop (n - 1) y"
    using n by (simp add: py_slice_from_def nat_diff_distrib')
  have lu: "length (rev (take n y)) = n" using n ylen by simp
  have ll: "length (drop (n - 1) y) = n" using n ylen by simp
  have neu: "rev (take n y) \<noteq> []" using lu n by (metis length_0_conv not_one_le_zero)
  have nel: "drop (n - 1) y \<noteq> []" using ll n by (metis length_0_conv not_one_le_zero)
  have bu: "np_broadcast2 (\<lambda>v w. v - w) (rev (take n y))
              (map (\<lambda>x. x * last (rev (take n y))) (x_coords c)) =
            Inr (map2 (\<lambda>v x. v - x * last (rev (take n y))) (rev (take n y)) (x_coords c))"
    unfolding np_broadcast2_def using lu xs
    by (simp add: zip_map2 split_def del: last_rev)
  have bl: "np_broadcast2 (\<lambda>v w. v - w) (drop (n - 1) y)
              (map (\<lambda>x. x * last (drop (n - 1) y)) (x_coords c)) =
            Inr (map2 (\<lambda>v x. v - x * last (drop (n - 1) y)) (drop (n - 1) y) (x_coords c))"
    unfolding np_broadcast2_def using ll xs
    by (simp add: zip_map2 split_def)
  show ?thesis
    unfolding fit_CST_def A t d Let_def
    by (simp only: py_bind_def py_last_def neu nel if_False sum.case bu bl su sl)
qed


lemma A0_matrix_length: "A0_matrix c = Inr M \<Longrightarrow> length M = n_x c"
  by (auto simp: A0_matrix_def Let_def split: if_splits)

text \<open>
  Claim C1. For \<open>y_coords\<close> of length \<open>2 n_x - 1\<close> over \<open>n_x\<close> stations whose basis
  matrix has the finite entries \<open>A\<close>, and a solver that returns least-squares solutions
  for \<open>A\<close>: \<open>fit_CST\<close> splits the input into \<open>yu\<close>, the first \<open>n_x\<close> values reversed,
  and \<open>yl\<close>, the values from index \<open>n_x - 1\<close> on; it returns
  \<open>te = (yu[last] - yl[last]) / 2\<close>, and \<open>au\<close> and \<open>al\<close> are least-squares solutions of
  \<open>A a = yu - stations * yu[last]\<close> and \<open>A a = yl - stations * yl[last]\<close>.
\<close>

theorem fit_CST_least_squares:
  assumes "1 \<le> n" and "length y = 2 * n - 1"
    and "length (x_coords c) = n" and "n_x c = n"
    and "A0_matrix c = Inr (map (map Fin) A)"
    and "solves_for env A"
  shows "let yu = rev (take n y); yl = drop (n - 1) y in
     \<exists>au al.
       fit_CST env c y (int n) = Inr (map Fin au, map Fin al, (last yu - last yl) / 2) \<and>
       least_squares A (map2 (\<lambda>v x. v - x * last yu) yu (x_coords c)) au \<and>
       least_squares A (map2 (\<lambda>v x. v - x * last yl) yl (x_coords c)) al"
proof -
  let ?yu = "rev (take n y)" and ?yl = "drop (n - 1) y"
  let ?bu = "map2 (\<lambda>v x. v - x * last ?yu) ?yu (x_coords c)"
  let ?bl = "map2 (\<lambda>v x. v - x * last ?yl) ?yl (x_coords c)"
  have lenA: "length A = n"
    using A0_matrix_length [OF assms(5)] assms(4) by simp
  have "length ?bu = length A" using assms(1-3) lenA by simp
  with assms(6) obtain au where
    au: "lstsq env (map (map Fin) A) ?bu = Inr (map Fin au)" "least_squares A ?bu au"
    unfolding solves_for_def by blast
  have "length ?bl = length A" using assms(1-3) lenA by simp
  with assms(6) obtain al where
    al: "lstsq env (map (map Fin) A) ?bl = Inr (map Fin al)" "least_squares A ?bl al"
    unfolding solves_for_def by blast
  from fit_CST_run [OF assms(1,2,3,5) au(1) al(1)] au(2) al(2)
  show ?thesis unfolding Let_def by blast
qed


lemma coarse_residual:
  "residual_norm coarse_basis [b0, b1, b2, b3] [u, v] =
     sqrt (b0\<^sup>2 + ((9 / 32 * u + 3 / 32 * v - b1)\<^sup>2 +
           ((147 / 1024 * u + 189 / 1024 * v - b2)\<^sup>2 + b3\<^sup>2)))"
  by (simp add: residual_norm_def coarse_basis_def dot_def)

lemma list_of_length_2: "length xs = 2 \<Longrightarrow> \<exists>a b. xs = [a, b]"
  by (auto simp: numeral_2_eq_2 length_Suc_conv)

lemma list_of_length_4: "length xs = 4 \<Longrightarrow> \<exists>a b c d. xs = [a, b, c, d]"
  by (auto simp: numeral_Bit0 length_Suc_conv)

lemma coarse_exact:
  "9 / 32 * ((6048 * b1 - 3072 * b2) / 1260) + 3 / 32 * ((9216 * b2 - 4704 * b1) / 1260) = (b1 :: real)"
  "147 / 1024 * ((6048 * b1 - 3072 * b2) / 1260) + 189 / 1024 * ((9216 * b2 - 4704 * b1) / 1260) = (b2 :: real)"
  by (simp_all add: field_simps)

lemma coarse_least_squares:
  "least_squares coarse_basis [b0, b1, b2, b3] [u, v] \<longleftrightarrow>
     9 / 32 * u + 3 / 32 * v = b1 \<and> 147 / 1024 * u + 189 / 1024 * v = b2"
proof
  assume ls: "least_squares coarse_basis [b0, b1, b2, b3] [u, v]"
  let ?u = "(6048 * b1 - 3072 * b2) / 1260" and ?v = "(9216 * b2 - 4704 * b1) / 1260"
  from ls have "residual_norm coarse_basis [b0, b1, b2, b3] [u, v] \<le>
      residual_norm coarse_basis [b0, b1, b2, b3] [?u, ?v]"
    unfolding least_squares_def by simp
  then have "(9 / 32 * u + 3 / 32 * v - b1)\<^sup>2 + (147 / 1024 * u + 189 / 1024 * v - b2)\<^sup>2 \<le> 0"
    unfolding coarse_residual coarse_exact by simp
  then have "(9 / 32 * u + 3 / 32 * v - b1)\<^sup>2 = 0 \<and> (147 / 1024 * u + 189 / 1024 * v - b2)\<^sup>2 = 0"
    by (metis add_nonneg_eq_0_iff antisym zero_le_power2 add_nonneg_nonneg)
  then show "9 / 32 * u + 3 / 32 * v = b1 \<and> 147 / 1024 * u + 189 / 1024 * v = b2"
    by simp
next
  assume ex: "9 / 32 * u + 3 / 32 * v = b1 \<and> 147 / 1024 * u + 189 / 1024 * v = b2"
  have "residual_norm coarse_basis [b0, b1, b2, b3] [u, v] \<le>
      residual_norm coarse_basis [b0, b1, b2, b3] a'" if "length a' = 2" for a'
  proof -
    from list_of_length_2 [OF that] obtain s t where a': "a' = [s, t]" by blast
    show ?thesis unfolding a' coarse_residual using ex by simp
  qed
  then show "least_squares coarse_basis [b0, b1, b2, b3] [u, v]"
    unfolding least_squares_def by (simp add: coarse_basis_def)
qed

lemma gram_lstsq_coarse:
  "gram_lstsq (map (map Fin) coarse_basis) [b0, b1, b2, b3] =
     Inr [Fin ((6048 * b1 - 3072 * b2) / 1260), Fin ((9216 * b2 - 4704 * b1) / 1260)]"
  by (simp add: gram_lstsq_def coarse_basis_def dot_def Let_def field_simps)

lemma gram_solves_coarse: "solves_for gram_numerics coarse_basis"
  unfolding solves_for_def
proof (intro allI impI)
  fix b :: "real list"
  assume "length b = length coarse_basis"
  then have "length b = 4" by (simp add: coarse_basis_def)
  from list_of_length_4 [OF this] obtain b0 b1 b2 b3 where b: "b = [b0, b1, b2, b3]" by blast
  let ?a = "[(6048 * b1 - 3072 * b2) / 1260, (9216 * b2 - 4704 * b1) / 1260]"
  have "lstsq gram_numerics (map (map Fin) coarse_basis) b = Inr (map Fin ?a)"
    unfolding b by (simp add: gram_numerics_def gram_lstsq_coarse)
  moreover have "least_squares coarse_basis b ?a"
    unfolding b coarse_least_squares by (rule conjI) (rule coarse_exact)+
  ultimately show "\<exists>a. lstsq gram_numerics (map (map Fin) coarse_basis) b = Inr (map Fin a) \<and>
      least_squares coarse_basis b a"
    by blast
qed

lemma coarse_facts: "length coarse_ordinates = 7" "length (x_coords coarse_params) = 4"
  "n_x coarse_params = 4" "x_coords coarse_params = [0, 1 / 4, 9 / 16, 1]"
  by (simp_all add: coarse_ordinates_def coarse_params_def)

lemma coarse_fit_up:
  "fit_CST_up gram_numerics coarse_params coarse_ordinates 4 = Inr ([Fin 1, Fin 1], 1 / 8)"
  unfolding fit_CST_up_def coarse_A0
  by (simp add: py_bind_def Let_def py_slice_to_def py_slice_from_def py_last_def
        np_broadcast2_def coarse_facts coarse_ordinates_def gram_numerics_def gram_lstsq_coarse)

lemma coarse_fit_low:
  "fit_CST_low gram_numerics coarse_params coarse_ordinates 4 = Inr ([Fin (- 1), Fin 1], 1 / 8)"
  unfolding fit_CST_low_def coarse_A0
  by (simp add: py_bind_def Let_def py_slice_to_def py_slice_from_def py_last_def
        np_broadcast2_def coarse_facts coarse_ordinates_def gram_numerics_def gram_lstsq_coarse)

lemma coarse_fit:
  "fit_CST gram_numerics coarse_params coarse_ordinates 4 =
     Inr ([Fin 1, Fin 1], [Fin (- 1), Fin 1], 1 / 8)"
  unfolding fit_CST_def coarse_A0
  by (simp add: py_bind_def Let_def py_slice_to_def py_slice_from_def py_last_def
        np_broadcast2_def coarse_facts coarse_ordinates_def gram_numerics_def gram_lstsq_coarse)

lemma map_Fin_pair: "map Fin a = [Fin u, Fin v] \<Longrightarrow> a = [u, v]"
  by (auto simp: map_eq_Cons_conv)

theorem fit_CST_least_squares_witness:
  "(1::nat) \<le> 4 \<and> length coarse_ordinates = 2 * 4 - 1 \<and>
   length (x_coords coarse_params) = 4 \<and> n_x coarse_params = 4 \<and>
   A0_matrix coarse_params = Inr (map (map Fin) coarse_basis) \<and>
   solves_for gram_numerics coarse_basis \<and>
   fit_CST gram_numerics coarse_params coarse_ordinates 4 =
     Inr ([Fin 1, Fin 1], [Fin (- 1), Fin 1], 1 / 8) \<and>
   least_squares coarse_basis [1 / 16, 3 / 8, 21 / 64, 0] [1, 1] \<and>
   least_squares coarse_basis [1 / 16, - (3 / 16), 21 / 512, 0] [- 1, 1] \<and>
   \<not> least_squares coarse_basis [1 / 16, 3 / 8, 21 / 64, 0] [- 1, 1] \<and>
   \<not> least_squares coarse_basis [1 / 16, - (3 / 16), 21 / 512, 0] [1, 1]"
proof -
  have len: "length coarse_ordinates = 2 * 4 - 1" by (simp add: coarse_facts)
  from fit_CST_least_squares [of 4 coarse_ordinates coarse_params coarse_basis gram_numerics,
      OF _ len coarse_facts(2) coarse_facts(3) coarse_A0 gram_solves_coarse]
  obtain au al where
    fit: "fit_CST gram_numerics coarse_params coarse_ordinates 4 =
            Inr (map Fin au, map Fin al,
                 (last (rev (take 4 coarse_ordinates)) - last (drop (4 - 1) coarse_ordinates)) / 2)"
    and u: "least_squares coarse_basis
              (map2 (\<lambda>v x. v - x * last (rev (take 4 coarse_ordinates)))
                 (rev (take 4 coarse_ordinates)) (x_coords coarse_params)) au"
    and l: "least_squares coarse_basis
              (map2 (\<lambda>v x. v - x * last (drop (4 - 1) coarse_ordinates))
                 (drop (4 - 1) coarse_ordinates) (x_coords coarse_params)) al"
    unfolding Let_def by auto
  from fit have au: "au = [1, 1]" and al: "al = [- 1, 1]"
    unfolding coarse_fit by (auto dest: map_Fin_pair)
  have bu: "map2 (\<lambda>v x. v - x * last (rev (take 4 coarse_ordinates)))
                 (rev (take 4 coarse_ordinates)) (x_coords coarse_params) =
            [1 / 16, 3 / 8, 21 / 64, 0]"
    by (simp add: coarse_ordinates_def coarse_facts)
  have bl: "map2 (\<lambda>v x. v - x * last (drop (4 - 1) coarse_ordinates))
                 (drop (4 - 1) coarse_ordinates) (x_coords coarse_params) =
            [1 / 16, - (3 / 16), 21 / 512, 0]"
    by (simp add: coarse_ordinates_def coarse_facts)
  have nu: "\<not> least_squares coarse_basis [1 / 16, 3 / 8, 21 / 64, 0] [- 1, 1]"
    unfolding coarse_least_squares by simp
  have nl: "\<not> least_squares coarse_basis [1 / 16, - (3 / 16), 21 / 512, 0] [1, 1]"
    unfolding coarse_least_squares by simp
  from u l nu nl show ?thesis
    unfolding au al bu bl
    by (simp add: coarse_facts coarse_A0 gram_solves_coarse coarse_fit)
qed

text \<open>
  Claim C9, as the code has it. \<open>fit_CST_up\<close> and \<open>fit_CST_low\<close> repeat the slicing
  and the \<open>te\<close> of \<open>fit_CST\<close> and the solve of their own surface, and leave out the
  right-hand side and the solve of the other surface. So \<open>fit_CST\<close> is
  \<open>fit_CST_up\<close> followed by \<open>fit_CST_low\<close>: it raises what \<open>fit_CST_up\<close> raises,
  or else what \<open>fit_CST_low\<close> raises, and when both return it returns the
  coefficients of the two with their common \<open>te\<close>. Hence \<open>fit_CST\<close> returns
  \<open>(au, al, te)\<close> exactly when \<open>fit_CST_up\<close> returns \<open>(au, te)\<close> and
  \<open>fit_CST_low\<close> returns \<open>(al, te)\<close>.
\<close>

theorem fit_modes_relation:
  "fit_CST env c y nx =
     (case fit_CST_up env c y nx of
        Inl e \<Rightarrow> Inl e
      | Inr (a, t) \<Rightarrow>
          (case fit_CST_low env c y nx of
             Inl e \<Rightarrow> Inl e
           | Inr (a', t') \<Rightarrow> Inr (a, a', t))) \<and>
   (fit_CST env c y nx = Inr (au, al, te) \<longleftrightarrow>
      fit_CST_up env c y nx = Inr (au, te) \<and> fit_CST_low env c y nx = Inr (al, te))"
  by (auto simp: fit_CST_def fit_CST_up_def fit_CST_low_def py_bind_def Let_def
        split: sum.splits)

theorem fit_modes_relation_witness:
  "fit_CST_up gram_numerics coarse_params coarse_ordinates 4 = Inr ([Fin 1, Fin 1], 1 / 8) \<and>
   fit_CST_low gram_numerics coarse_params coarse_ordinates 4 = Inr ([Fin (- 1), Fin 1], 1 / 8) \<and>
   fit_CST gram_numerics coarse_params coarse_ordinates 4 =
     Inr ([Fin 1, Fin 1], [Fin (- 1), Fin 1], 1 / 8)"
  using fit_modes_relation [of gram_numerics coarse_params coarse_ordinates 4
      "[Fin 1, Fin 1]" "[Fin (- 1), Fin 1]" "1 / 8"]
    coarse_fit_up coarse_fit_low
  by simp

text \<open>
  The claim as stated, for every input, fails where only the other surface's line
  raises. With one ordinate too many after the lower trailing edge the lower
  right-hand side cannot be broadcast against the four stations: \<open>fit_CST\<close> raises
  and \<open>fit_CST_up\<close> returns coefficients and a \<open>te\<close>. With one ordinate too many
  before the upper trailing edge and \<open>n_x = 5\<close> it is the upper right-hand side
  that fails: \<open>fit_CST\<close> raises and \<open>fit_CST_low\<close> returns.
\<close>

theorem single_surface_fit_counterexample:
  "fit_CST_up gram_numerics coarse_params (coarse_ordinates @ [0]) 4 =
     Inr ([Fin 1, Fin 1], 1 / 16) \<and>
   fit_CST gram_numerics coarse_params (coarse_ordinates @ [0]) 4 =
     Inl (ValueError ''operands could not be broadcast together'') \<and>
   fit_CST_low gram_numerics coarse_params (0 # coarse_ordinates) 5 =
     Inr ([Fin (- 1), Fin 1], 1 / 16) \<and>
   fit_CST gram_numerics coarse_params (0 # coarse_ordinates) 5 =
     Inl (ValueError ''operands could not be broadcast together'')"
proof -
  have 1: "fit_CST_up gram_numerics coarse_params (coarse_ordinates @ [0]) 4 =
     Inr ([Fin 1, Fin 1], 1 / 16)"
    unfolding fit_CST_up_def coarse_A0
    by (simp add: py_bind_def Let_def py_slice_to_def py_slice_from_def py_last_def
          np_broadcast2_def coarse_facts coarse_ordinates_def gram_numerics_def gram_lstsq_coarse)
  have 2: "fit_CST gram_numerics coarse_params (coarse_ordinates @ [0]) 4 =
     Inl (ValueError ''operands could not be broadcast together'')"
    unfolding fit_CST_def coarse_A0
    by (simp add: py_bind_def Let_def py_slice_to_def py_slice_from_def py_last_def
          np_broadcast2_def coarse_facts coarse_ordinates_def gram_numerics_def gram_lstsq_coarse)
  have 3: "fit_CST_low gram_numerics coarse_params (0 # coarse_ordinates) 5 =
     Inr ([Fin (- 1), Fin 1], 1 / 16)"
    unfolding fit_CST_low_def coarse_A0
    by (simp add: py_bind_def Let_def py_slice_to_def py_slice_from_def py_last_def
          np_broadcast2_def coarse_facts coarse_ordinates_def gram_numerics_def gram_lstsq_coarse)
  have 4: "fit_CST gram_numerics coarse_params (0 # coarse_ordinates) 5 =
     Inl (ValueError ''operands could not be broadcast together'')"
    unfolding fit_CST_def coarse_A0
    by (simp add: py_bind_def Let_def py_slice_to_def py_slice_from_def py_last_def
          np_broadcast2_def coarse_facts coarse_ordinates_def gram_numerics_def gram_lstsq_coarse)
  from 1 2 3 4 show ?thesis by simp
qed
section \<open>Theorems: the PARSEC features\<close>

lemma A0_matrix_basis:
  assumes "n_x c = length (x_coords c)"
  shows "A0_matrix c = Inr (basis_matrix (n_cst c) (n1 c) (n2 c) (x_coords c))"
  using assms by (simp add: A0_matrix_def Let_def basis_matrix_def comp_def del: upt_Suc)

lemma CSTLayer_init_Some:
  "CSTLayer_init (Some xs) n nx e1 e2 =
     Inr \<lparr> n_x = length xs, x_coords = xs, n1 = e1, n2 = e2, n_cst = n,
           A0 = basis_matrix n e1 e2 xs \<rparr>"
  by (simp add: CSTLayer_init_def Let_def A0_matrix_basis py_bind_def)

lemma basis_matrix_length: "length (basis_matrix n e1 e2 xs) = length xs"
  by (simp add: basis_matrix_def)

lemma basis_matrix_rows: "list_all (\<lambda>row. length row = n + 1) (basis_matrix n e1 e2 xs)"
  by (simp add: basis_matrix_def list_all_iff del: upt_Suc)

lemma dense_grid_length: "length dense_grid = 10010"
  by (simp add: dense_grid_def np_arange_def)

lemma dense_grid_nth: "i < 10010 \<Longrightarrow> dense_grid ! i = real i / 10000"
  by (simp add: dense_grid_def np_arange_def)

lemma np_matvec_dense:
  assumes "length a = 13"
  shows "np_matvec (basis_matrix 12 e1 e2 xs) a =
     Inr (map (\<lambda>row. np_sum (map2 np_mul row a)) (basis_matrix 12 e1 e2 xs))"
  using basis_matrix_rows [of 12 e1 e2 xs] assms by (simp add: np_matvec_def)

lemma argmax_scan_bound: "bi < i \<Longrightarrow> argmax_scan bi bv i xs < i + length xs"
proof (induction xs arbitrary: bi bv i)
  case Nil
  then show ?case by simp
next
  case (Cons x xs)
  have a: "argmax_scan i x (Suc i) xs < Suc i + length xs"
    by (rule Cons.IH) simp
  have b: "argmax_scan bi bv (Suc i) xs < Suc i + length xs"
    by (rule Cons.IH) (use Cons.prems in simp)
  from a b Cons.prems show ?case by auto
qed

lemma argmin_scan_bound: "bi < i \<Longrightarrow> argmin_scan bi bv i xs < i + length xs"
proof (induction xs arbitrary: bi bv i)
  case Nil
  then show ?case by simp
next
  case (Cons x xs)
  have a: "argmin_scan i x (Suc i) xs < Suc i + length xs"
    by (rule Cons.IH) simp
  have b: "argmin_scan bi bv (Suc i) xs < Suc i + length xs"
    by (rule Cons.IH) (use Cons.prems in simp)
  from a b Cons.prems show ?case by auto
qed

lemma np_argmax_bound: "xs \<noteq> [] \<Longrightarrow> \<exists>i < length xs. np_argmax xs = Inr i"
  using argmax_scan_bound [of 0 1 "hd xs" "tl xs"]
  by (cases xs) (auto simp: np_argmax_def)

lemma np_argmin_bound: "xs \<noteq> [] \<Longrightarrow> \<exists>i < length xs. np_argmin xs = Inr i"
  using argmin_scan_bound [of 0 1 "hd xs" "tl xs"]
  by (cases xs) (auto simp: np_argmin_def)

lemma np_amax_nonempty: "xs \<noteq> [] \<Longrightarrow> \<exists>m. np_amax xs = Inr m"
  by (cases xs) (auto simp: np_amax_def)

lemma np_amin_nonempty: "xs \<noteq> [] \<Longrightarrow> \<exists>m. np_amin xs = Inr m"
  by (cases xs) (auto simp: np_amin_def)

lemma dense_upper_length: "length (dense_upper au te) = 10010"
  by (simp add: dense_upper_def basis_matrix_length dense_grid_length)

lemma dense_lower_length: "length (dense_lower al te) = 10010"
  by (simp add: dense_lower_def basis_matrix_length dense_grid_length)


lemma CSTLayer_init_fit_layer: "CSTLayer_init (Some xs) 12 nx (1 / 2) 1 = Inr (fit_layer xs)"
  by (simp add: CSTLayer_init_Some fit_layer_def)

lemma fit_layer_simps:
  "x_coords (fit_layer xs) = xs" "A0 (fit_layer xs) = basis_matrix 12 (1 / 2) 1 xs"
  "n_x (fit_layer xs) = length xs" "n_cst (fit_layer xs) = 12"
  "n1 (fit_layer xs) = 1 / 2" "n2 (fit_layer xs) = 1"
  by (simp_all add: fit_layer_def)

lemma reconstruct_upper:
  assumes "length au = 13"
  shows "py_bind (np_matvec (basis_matrix 12 (1 / 2) 1 dense_grid) au)
           (\<lambda>pu. py_bind (np_broadcast2 np_add pu (map (\<lambda>s. Fin (s * te)) dense_grid)) k) =
         k (dense_upper au te)"
  by (simp add: np_matvec_dense [OF assms] py_bind_def np_broadcast2_def basis_matrix_length
        dense_upper_def zip_map_map split_def comp_def)

lemma reconstruct_lower:
  assumes "length al = 13"
  shows "py_bind (np_matvec (basis_matrix 12 (1 / 2) 1 dense_grid) al)
           (\<lambda>pl. py_bind (np_broadcast2 np_sub pl (map (\<lambda>s. Fin (s * te)) dense_grid)) k) =
         k (dense_lower al te)"
  by (simp add: np_matvec_dense [OF assms] py_bind_def np_broadcast2_def basis_matrix_length
        dense_lower_def zip_map_map split_def comp_def)

lemma np_get_dense:
  "i < 10010 \<Longrightarrow> np_get (dense_upper au te) i = Inr (dense_upper au te ! i)"
  "i < 10010 \<Longrightarrow> np_get (dense_lower al te) i = Inr (dense_lower al te ! i)"
  "i < 10010 \<Longrightarrow> np_get dense_grid i = Inr (dense_grid ! i)"
  by (simp_all add: np_get_def dense_upper_length dense_lower_length dense_grid_length)

lemma get_parsec_n15_run:
  assumes ang: "slope_angle data = Inr angle"
    and fit: "fit_CST env (fit_layer (rev (py_slice_to 129 (map fst data)))) (map snd data) 129 =
                Inr (au, al, te)"
    and au: "length au = 13" and al: "length al = 13"
    and mn: "minimize env
               (\<lambda>p. objective p (map fst (drop 126 (take 131 data)))
                       (map snd (drop 126 (take 131 data))))
               [Fin (25 / 10000), Fin 0,
                np_std (map fst (drop 126 (take 131 data)) @
                        map snd (drop 126 (take 131 data)))] = Inr res"
    and res: "opt_x res = [xc, yc, r]"
  shows "\<exists>yumax ylmax yr iu il ir.
     np_amax (dense_upper au te) = Inr yumax \<and> np_argmax (dense_upper au te) = Inr iu \<and>
     np_amin (dense_lower al te) = Inr ylmax \<and> np_argmin (dense_lower al te) = Inr il \<and>
     np_amax (dense_lower al te) = Inr yr \<and> np_argmax (dense_lower al te) = Inr ir \<and>
     get_parsec_n15 env data =
       Inr [r, dense_upper au te ! 400, dense_lower al te ! 400,
            Fin (dense_grid ! iu), yumax, Fin (dense_grid ! il), ylmax,
            dense_upper au te ! 2500, dense_lower al te ! 2500,
            angle, Fin te, Fin (dense_grid ! ir), yr,
            dense_upper au te ! 6000, dense_lower al te ! 6000]"
proof -
  let ?yu = "dense_upper au te" and ?yl = "dense_lower al te"
  have neu: "?yu \<noteq> []" using dense_upper_length [of au te] by auto
  have nel: "?yl \<noteq> []" using dense_lower_length [of al te] by auto
  from np_amax_nonempty [OF neu] obtain yumax where 1: "np_amax ?yu = Inr yumax" ..
  from np_amin_nonempty [OF nel] obtain ylmax where 2: "np_amin ?yl = Inr ylmax" ..
  from np_amax_nonempty [OF nel] obtain yr where 3: "np_amax ?yl = Inr yr" ..
  from np_argmax_bound [OF neu] obtain iu where 4: "iu < 10010" "np_argmax ?yu = Inr iu"
    by (auto simp: dense_upper_length)
  from np_argmin_bound [OF nel] obtain il where 5: "il < 10010" "np_argmin ?yl = Inr il"
    by (auto simp: dense_lower_length)
  from np_argmax_bound [OF nel] obtain ir where 6: "ir < 10010" "np_argmax ?yl = Inr ir"
    by (auto simp: dense_lower_length)
  have "get_parsec_n15 env data =
       Inr [r, ?yu ! 400, ?yl ! 400,
            Fin (dense_grid ! iu), yumax, Fin (dense_grid ! il), ylmax,
            ?yu ! 2500, ?yl ! 2500, angle, Fin te, Fin (dense_grid ! ir), yr,
            ?yu ! 6000, ?yl ! 6000]"
    unfolding get_parsec_n15_def Let_def ang CSTLayer_init_fit_layer
    apply (simp only: py_bind_def [of "Inr _"] sum.case fit prod.case fit_layer_simps)
    apply (simp only: reconstruct_upper [OF au] reconstruct_lower [OF al])
    using mn res apply (simp add: np_get_dense 1 2 3 4 5 6 py_bind_def unpack3_def)
    done
  with 1 2 3 4 5 6 show ?thesis by blast
qed

lemma np_power_fin: "0 \<le> x \<Longrightarrow> 0 \<le> a \<Longrightarrow> is_fin (np_power x a)"
  by (simp add: np_power_def)

lemma np_mul_fin: "is_fin u \<Longrightarrow> is_fin v \<Longrightarrow> is_fin (np_mul u v)"
  by (cases u; cases v) simp_all

lemma A0_row_fin:
  assumes "0 \<le> x ! i" "x ! i \<le> 1" "i < length x" "r \<le> n" "0 \<le> e1" "0 \<le> e2"
  shows "is_fin (A0_row n e1 e2 x r ! i)"
  using assms by (simp add: A0_row_def Let_def np_mul_fin np_power_fin)

lemma basis_matrix_fin:
  assumes "list_all (\<lambda>s. 0 \<le> s \<and> s \<le> 1) xs" "0 \<le> e1" "0 \<le> e2"
  shows "list_all (list_all is_fin) (basis_matrix n e1 e2 xs)"
proof -
  have "is_fin (A0_row n e1 e2 xs r ! i)" if "i < length xs" "r \<le> n" for i r
    using assms that by (intro A0_row_fin) (auto simp: list_all_length)
  then show ?thesis
    by (auto simp: basis_matrix_def list_all_iff simp del: upt_Suc)
qed

lemma basis_matrix_hd:
  "xs \<noteq> [] \<Longrightarrow> length (hd (basis_matrix n e1 e2 xs)) = n + 1"
  using basis_matrix_rows [of n e1 e2 xs] basis_matrix_length [of n e1 e2 xs]
  by (cases "basis_matrix n e1 e2 xs") auto

lemma fit_CST_returns:
  assumes len: "length data = 257"
    and st: "list_all (\<lambda>p. 0 \<le> fst p \<and> fst p \<le> 1) (take 129 data)"
    and ls: "lstsq_returns env"
  shows "\<exists>au al te.
     fit_CST env (fit_layer (rev (py_slice_to 129 (map fst data)))) (map snd data) 129 =
       Inr (au, al, te) \<and> length au = 13 \<and> length al = 13 \<and>
     te = (snd (data ! 0) - snd (data ! 256)) / 2"
proof -
  let ?xs = "rev (py_slice_to 129 (map fst data))" and ?y = "map snd data"
  let ?A = "basis_matrix 12 (1 / 2) 1 ?xs"
  have xs: "?xs = rev (map fst (take 129 data))" by (simp add: py_slice_to_def take_map)
  have lx: "length ?xs = 129" using len by (simp add: py_slice_to_def)
  have fin: "list_all (list_all is_fin) ?A"
    using st unfolding xs by (intro basis_matrix_fin) (auto simp: list_all_iff)
  have ne: "?A \<noteq> []" using basis_matrix_length [of 12 "1 / 2" 1 ?xs] lx by auto
  have nexs: "?xs \<noteq> []" using lx by (metis length_0_conv zero_neq_numeral)
  have hd: "length (hd ?A) = 13" using basis_matrix_hd [OF nexs, of 12 "1 / 2" 1] by simp
  have A0: "A0_matrix (fit_layer ?xs) = Inr ?A"
    by (simp add: A0_matrix_basis fit_layer_simps)
  have solve: "\<exists>a. lstsq env ?A b = Inr a \<and> length a = 13" if "length b = 129" for b
    using ls ne fin that hd basis_matrix_length [of 12 "1 / 2" 1 ?xs] lx
    unfolding lstsq_returns_def by metis
  let ?bu = "map2 (\<lambda>v x. v - x * last (rev (take 129 ?y))) (rev (take 129 ?y)) (x_coords (fit_layer ?xs))"
  let ?bl = "map2 (\<lambda>v x. v - x * last (drop (129 - 1) ?y)) (drop (129 - 1) ?y) (x_coords (fit_layer ?xs))"
  have "length ?bu = 129" using len lx by (simp add: fit_layer_simps)
  from solve [OF this] obtain au where au: "lstsq env ?A ?bu = Inr au" "length au = 13" by blast
  have "length ?bl = 129" using len lx by (simp add: fit_layer_simps)
  from solve [OF this] obtain al where al: "lstsq env ?A ?bl = Inr al" "length al = 13" by blast
  have run: "fit_CST env (fit_layer ?xs) ?y (int 129) =
      Inr (au, al, (last (rev (take 129 ?y)) - last (drop (129 - 1) ?y)) / 2)"
    by (rule fit_CST_run [OF _ _ _ A0 au(1) al(1)]) (use len lx in \<open>simp_all add: fit_layer_simps\<close>)
  have net: "take 129 data \<noteq> []" using len by auto
  have l1: "last (rev (take 129 ?y)) = snd (data ! 0)"
    using net by (simp add: take_map last_rev hd_map hd_conv_nth)
  have l2: "last (drop (129 - 1) ?y) = snd (data ! 256)"
    using len by (simp add: last_conv_nth)
  have "fit_CST env (fit_layer ?xs) ?y 129 =
      Inr (au, al, (snd (data ! 0) - snd (data ! 256)) / 2)"
    using run unfolding l1 l2 by simp
  with au(2) al(2) show ?thesis by blast
qed


lemma slope_angle_returns:
  assumes "2 \<le> length data"
  shows "slope_angle data =
     Inr (math_degrees (math_atan (np_div (Fin (snd (data ! 0) - snd (data ! 1)))
                                          (Fin (fst (data ! 0) - fst (data ! 1))))))"
proof -
  from assms have "data \<noteq> []" "Suc 0 < length data" by auto
  then show ?thesis
    unfolding slope_angle_def np_get_def py_bind_def Let_def by simp
qed

lemma list_of_length_3: "length xs = 3 \<Longrightarrow> \<exists>a b c. xs = [a, b, c]"
  by (auto simp: numeral_3_eq_3 length_Suc_conv)

lemma objective_returns: "length p = 3 \<Longrightarrow> \<not> isl (objective p x y)"
  by (auto simp: objective_def py_bind_def unpack3_def dest!: list_of_length_3)

lemma minimize_returns_objective:
  assumes "minimize_returns env" and "length g = 3"
  shows "\<exists>res. minimize env (\<lambda>p. objective p x y) g = Inr res \<and> length (opt_x res) = 3"
proof -
  have obj: "\<forall>p. length p = length g \<longrightarrow> \<not> isl (objective p x y)"
    using assms(2) by (simp add: objective_returns)
  from assms(1) have "\<forall>x0. (\<forall>p. length p = length x0 \<longrightarrow> \<not> isl (objective p x y)) \<longrightarrow>
      (\<exists>res. minimize env (\<lambda>p. objective p x y) x0 = Inr res \<and>
         length (opt_x res) = length x0)"
    unfolding minimize_returns_def by (rule spec)
  then have "(\<forall>p. length p = length g \<longrightarrow> \<not> isl (objective p x y)) \<longrightarrow>
      (\<exists>res. minimize env (\<lambda>p. objective p x y) g = Inr res \<and>
         length (opt_x res) = length g)"
    by (rule spec)
  with obj assms(2) show ?thesis by simp
qed

text \<open>
  Claim C4. For every input airfoil (257 points whose first 129 stations lie in the
  unit interval, with \<open>lstsq\<close> returning as it does on finite input and \<open>minimize\<close>
  as it does for an objective that returns), \<open>get_parsec_n15\<close> returns a vector of
  exactly 15 floats in the order
  \<open>[rf, t4u, t4l, xumax, yumax, xlmax, ylmax, t25u, t25l, angle, te, xr, yr, t60u,
  t60l]\<close>: \<open>rf\<close> is the radius of the minimiser's final iterate, the \<open>t\<close> entries are
  the dense curves at the indices 400, 2500 and 6000, the extrema and their stations
  come from \<open>max\<close>, \<open>min\<close>, \<open>argmax\<close> and \<open>argmin\<close> of the dense curves, \<open>angle\<close> is
  the slope angle and \<open>te\<close> the trailing-edge half thickness of the fit.
\<close>

theorem get_parsec_n15_feature_vector:
  assumes "length data = 257"
    and "list_all (\<lambda>p. 0 \<le> fst p \<and> fst p \<le> 1) (take 129 data)"
    and "lstsq_returns env" and "minimize_returns env"
  shows "\<exists>au al te angle res xc yc r yumax ylmax yr iu il ir.
     slope_angle data = Inr angle \<and>
     fit_CST env (fit_layer (rev (py_slice_to 129 (map fst data)))) (map snd data) 129 =
       Inr (au, al, te) \<and>
     minimize env
       (\<lambda>p. objective p (map fst (drop 126 (take 131 data))) (map snd (drop 126 (take 131 data))))
       [Fin (25 / 10000), Fin 0,
        np_std (map fst (drop 126 (take 131 data)) @ map snd (drop 126 (take 131 data)))] =
       Inr res \<and>
     opt_x res = [xc, yc, r] \<and>
     np_amax (dense_upper au te) = Inr yumax \<and> np_argmax (dense_upper au te) = Inr iu \<and>
     np_amin (dense_lower al te) = Inr ylmax \<and> np_argmin (dense_lower al te) = Inr il \<and>
     np_amax (dense_lower al te) = Inr yr \<and> np_argmax (dense_lower al te) = Inr ir \<and>
     get_parsec_n15 env data =
       Inr [r, dense_upper au te ! 400, dense_lower al te ! 400,
            Fin (dense_grid ! iu), yumax, Fin (dense_grid ! il), ylmax,
            dense_upper au te ! 2500, dense_lower al te ! 2500,
            angle, Fin te, Fin (dense_grid ! ir), yr,
            dense_upper au te ! 6000, dense_lower al te ! 6000] \<and>
     length [r, dense_upper au te ! 400, dense_lower al te ! 400,
            Fin (dense_grid ! iu), yumax, Fin (dense_grid ! il), ylmax,
            dense_upper au te ! 2500, dense_lower al te ! 2500,
            angle, Fin te, Fin (dense_grid ! ir), yr,
            dense_upper au te ! 6000, dense_lower al te ! 6000] = 15"
proof -
  let ?xd = "map fst (drop 126 (take 131 data))" and ?yd = "map snd (drop 126 (take 131 data))"
  from fit_CST_returns [OF assms(1-3)] obtain au al te where
    fit: "fit_CST env (fit_layer (rev (py_slice_to 129 (map fst data)))) (map snd data) 129 =
            Inr (au, al, te)"
    and au: "length au = 13" and al: "length al = 13"
    by blast
  from slope_angle_returns [of data] assms(1) obtain angle where
    ang: "slope_angle data = Inr angle" by simp
  from minimize_returns_objective [OF assms(4), of "[Fin (25 / 10000), Fin 0, np_std (?xd @ ?yd)]"
      ?xd ?yd]
  obtain res where
    mn: "minimize env (\<lambda>p. objective p ?xd ?yd)
           [Fin (25 / 10000), Fin 0, np_std (?xd @ ?yd)] = Inr res"
    and len3: "length (opt_x res) = 3"
    by auto
  from list_of_length_3 [OF len3] obtain xc yc r where res: "opt_x res = [xc, yc, r]" by blast
  from get_parsec_n15_run [OF ang fit au al mn res] obtain yumax ylmax yr iu il ir where
    ex: "np_amax (dense_upper au te) = Inr yumax" "np_argmax (dense_upper au te) = Inr iu"
      "np_amin (dense_lower al te) = Inr ylmax" "np_argmin (dense_lower al te) = Inr il"
      "np_amax (dense_lower al te) = Inr yr" "np_argmax (dense_lower al te) = Inr ir"
    and out: "get_parsec_n15 env data =
       Inr [r, dense_upper au te ! 400, dense_lower al te ! 400,
            Fin (dense_grid ! iu), yumax, Fin (dense_grid ! il), ylmax,
            dense_upper au te ! 2500, dense_lower al te ! 2500,
            angle, Fin te, Fin (dense_grid ! ir), yr,
            dense_upper au te ! 6000, dense_lower al te ! 6000]"
    by blast
  show ?thesis
    apply (rule exI [of _ au], rule exI [of _ al], rule exI [of _ te], rule exI [of _ angle])
    apply (rule exI [of _ res], rule exI [of _ xc], rule exI [of _ yc], rule exI [of _ r])
    apply (rule exI [of _ yumax], rule exI [of _ ylmax], rule exI [of _ yr])
    apply (rule exI [of _ iu], rule exI [of _ il], rule exI [of _ ir])
    apply (intro conjI ang fit mn res ex out)
    apply simp
    done
qed

lemma example_lstsq_returns: "lstsq_returns example_numerics"
  unfolding lstsq_returns_def example_numerics_def zero_lstsq_def by simp

lemma example_minimize_returns: "minimize_returns example_numerics"
  unfolding minimize_returns_def example_numerics_def by simp

lemma stalled_lstsq_returns: "lstsq_returns stalled_numerics"
  unfolding lstsq_returns_def stalled_numerics_def zero_lstsq_def by simp

lemma stalled_minimize_returns: "minimize_returns stalled_numerics"
  unfolding minimize_returns_def stalled_numerics_def by simp

lemma probing_lstsq_returns: "lstsq_returns probing_numerics"
  unfolding lstsq_returns_def probing_numerics_def zero_lstsq_def by simp

lemma probing_minimize_returns: "minimize_returns probing_numerics"
  unfolding minimize_returns_def probing_numerics_def
  by (auto simp: py_bind_def split: sum.splits)

lemma flat_plate_length: "length flat_plate = 257"
  by (simp add: flat_plate_def)

lemma flat_plate_stations:
  "list_all (\<lambda>p. 0 \<le> fst p \<and> fst p \<le> 1) (take 129 flat_plate)"
  by (simp add: flat_plate_def take_map list_all_iff)

text \<open>
  Claim C3, the dense grid. \<open>np.arange(0, 1.001, 0.0001)\<close> has 10,010 stations and
  ends at \<open>1.0009\<close>: nine stations lie beyond the chord, and the station \<open>1\<close> is the
  entry \<open>10000\<close>, not the last one. The indices 400, 2500 and 6000 are the chord
  fractions 0.04, 0.25 and 0.60.
\<close>

theorem dense_grid_extent:
  "length dense_grid = 10010 \<and> last dense_grid = 10009 / 10000 \<and>
   dense_grid ! 10000 = 1 \<and>
   dense_grid ! 400 = 4 / 100 \<and> dense_grid ! 2500 = 25 / 100 \<and> dense_grid ! 6000 = 60 / 100"
proof -
  have "dense_grid \<noteq> []" using dense_grid_length by auto
  then have "last dense_grid = dense_grid ! 10009"
    by (simp add: last_conv_nth dense_grid_length)
  then show ?thesis
    by (simp add: dense_grid_length dense_grid_nth)
qed

lemma py_bind_Inr_iff: "py_bind m f = Inr v \<longleftrightarrow> (\<exists>u. m = Inr u \<and> f u = Inr v)"
  by (cases m) (auto simp: py_bind_def)

lemma wedge_plate_length: "length wedge_plate = 257"
  by (simp add: wedge_plate_def)

lemma wedge_plate_stations:
  "list_all (\<lambda>p. 0 \<le> fst p \<and> fst p \<le> 1) (take 129 wedge_plate)"
  by (simp add: wedge_plate_def take_map list_all_iff)

lemma wedge_plate_ends: "wedge_plate ! 0 = (1, 1)" "wedge_plate ! Suc 0 = (127 / 128, 127 / 128)"
  "wedge_plate ! 256 = (1, - 1)"
  by (simp_all add: wedge_plate_def)

lemma wedge_plate_slope: "slope_angle wedge_plate = Inr (Fin 45)"
  unfolding slope_angle_returns [of wedge_plate, unfolded wedge_plate_length, simplified]
  by (simp add: wedge_plate_ends arctan_one)

lemma zero_lstsq_fit:
  assumes "lstsq env = zero_lstsq" and "fit_CST env c y nx = Inr (au, al, te)"
  shows "au = replicate (length au) (Fin 0) \<and> al = replicate (length al) (Fin 0)"
  using assms unfolding fit_CST_def Let_def
  by (auto simp: py_bind_Inr_iff zero_lstsq_def split: if_splits)

lemma zero_products:
  "list_all is_fin row \<Longrightarrow>
     map2 np_mul row (replicate k (Fin 0)) = replicate (min (length row) k) (Fin 0)"
proof (induction row arbitrary: k)
  case Nil
  show ?case by simp
next
  case (Cons a row)
  then show ?case by (cases k; cases a) simp_all
qed

lemma np_sum_zeros: "np_sum (replicate m (Fin 0)) = Fin 0"
  unfolding np_sum_def by (induction m) simp_all

lemma dense_row_fin:
  assumes "i < 10010" "dense_grid ! i \<le> 1"
  shows "list_all is_fin (basis_matrix 12 (1 / 2) 1 dense_grid ! i)"
proof -
  have 0: "0 \<le> dense_grid ! i" using assms(1) by (simp add: dense_grid_nth)
  have "is_fin (A0_row 12 (1 / 2) 1 dense_grid r ! i)" if "r \<le> 12" for r
    using 0 assms that by (intro A0_row_fin) (simp_all add: dense_grid_length)
  then show ?thesis
    using assms(1) by (auto simp: basis_matrix_def dense_grid_length list_all_iff simp del: upt_Suc)
qed

lemma dense_zero_coefficients:
  assumes "i < 10010" "dense_grid ! i \<le> 1"
  shows "dense_upper (replicate 13 (Fin 0)) te ! i = Fin (dense_grid ! i * te)"
    and "dense_lower (replicate 13 (Fin 0)) te ! i = Fin (- (dense_grid ! i * te))"
  using assms(1) dense_row_fin [OF assms]
  by (simp_all add: dense_upper_def dense_lower_def basis_matrix_length dense_grid_length
        zero_products np_sum_zeros np_sub_def)

theorem get_parsec_n15_feature_vector_witness:
  "length wedge_plate = 257 \<and>
   list_all (\<lambda>p. 0 \<le> fst p \<and> fst p \<le> 1) (take 129 wedge_plate) \<and>
   lstsq_returns probing_numerics \<and> minimize_returns probing_numerics \<and>
   (\<exists>v. get_parsec_n15 probing_numerics wedge_plate = Inr v \<and> length v = 15 \<and>
        v ! 1 = Fin (4 / 100) \<and> v ! 2 = Fin (- (4 / 100)) \<and>
        v ! 7 = Fin (25 / 100) \<and> v ! 8 = Fin (- (25 / 100)) \<and>
        v ! 9 = Fin 45 \<and> v ! 10 = Fin 1 \<and>
        v ! 13 = Fin (60 / 100) \<and> v ! 14 = Fin (- (60 / 100)))"
proof -
  from get_parsec_n15_feature_vector [OF wedge_plate_length wedge_plate_stations
      probing_lstsq_returns probing_minimize_returns]
  obtain au al te angle r yumax ylmax yr iu il ir where
    ang: "slope_angle wedge_plate = Inr angle"
    and fit: "fit_CST probing_numerics (fit_layer (rev (py_slice_to 129 (map fst wedge_plate))))
                (map snd wedge_plate) 129 = Inr (au, al, te)"
    and out: "get_parsec_n15 probing_numerics wedge_plate =
       Inr [r, dense_upper au te ! 400, dense_lower al te ! 400,
            Fin (dense_grid ! iu), yumax, Fin (dense_grid ! il), ylmax,
            dense_upper au te ! 2500, dense_lower al te ! 2500,
            angle, Fin te, Fin (dense_grid ! ir), yr,
            dense_upper au te ! 6000, dense_lower al te ! 6000]"
    by blast
  from fit_CST_returns [OF wedge_plate_length wedge_plate_stations probing_lstsq_returns] fit
  have len: "length au = 13" "length al = 13" and te: "te = 1"
    by (auto simp: wedge_plate_ends)
  have "lstsq probing_numerics = zero_lstsq" by (simp add: probing_numerics_def)
  from zero_lstsq_fit [OF this fit] len
  have au: "au = replicate 13 (Fin 0)" and al: "al = replicate 13 (Fin 0)" by simp_all
  from ang have angle: "angle = Fin 45" by (simp add: wedge_plate_slope)
  have t: "dense_upper au te ! 400 = Fin (4 / 100)" "dense_lower al te ! 400 = Fin (- (4 / 100))"
    "dense_upper au te ! 2500 = Fin (25 / 100)" "dense_lower al te ! 2500 = Fin (- (25 / 100))"
    "dense_upper au te ! 6000 = Fin (60 / 100)" "dense_lower al te ! 6000 = Fin (- (60 / 100))"
    unfolding au al te
    by (simp_all add: dense_zero_coefficients dense_grid_nth)
  from out t angle te show ?thesis
    by (simp add: wedge_plate_length wedge_plate_stations probing_lstsq_returns
          probing_minimize_returns)
qed

lemma unpack3_Inr_iff: "unpack3 xs = Inr t \<longleftrightarrow> xs = [fst t, fst (snd t), snd (snd t)]"
  by (cases t) (auto simp: unpack3_def split: list.splits)

lemma get_parsec_n15_angle:
  assumes "get_parsec_n15 env data = Inr v"
  shows "\<exists>angle. slope_angle data = Inr angle \<and> length v = 15 \<and> v ! 9 = angle"
  using assms unfolding get_parsec_n15_def Let_def
  by (auto simp: py_bind_Inr_iff split: prod.splits)

lemma fit_CST_minimize_update:
  "fit_CST (env\<lparr>minimize := g\<rparr>) c y nx = fit_CST env c y nx"
  by (simp add: fit_CST_def)

lemma convergence_flag_ignored:
  "get_parsec_n15
     (env\<lparr>minimize := (\<lambda>f x0. map_sum id (\<lambda>res. res\<lparr>opt_success := flag\<rparr>) (minimize env f x0))\<rparr>)
     data =
   get_parsec_n15 env data"
  unfolding get_parsec_n15_def Let_def fit_CST_minimize_update
  by (auto simp: py_bind_def split: sum.splits prod.splits)

lemma isl_py_bind: "isl m \<Longrightarrow> isl (py_bind m f)"
  by (cases m) (simp_all add: py_bind_def)

lemma get_parsec_n15_fit_error:
  assumes "isl (fit_CST env (fit_layer (rev (py_slice_to 129 (map fst data)))) (map snd data) 129)"
  shows "isl (get_parsec_n15 env data)"
proof (cases "slope_angle data")
  case (Inl e)
  then show ?thesis by (simp add: get_parsec_n15_def Let_def py_bind_def)
next
  case (Inr angle)
  from assms obtain e where
    "fit_CST env (fit_layer (rev (py_slice_to 129 (map fst data)))) (map snd data) 129 = Inl e"
    by (auto simp: isl_def)
  with Inr show ?thesis
    by (simp add: get_parsec_n15_def Let_def CSTLayer_init_fit_layer py_bind_def)
qed

lemma get_parsec_n15_too_short:
  assumes "length data < 2"
  shows "isl (get_parsec_n15 env data)"
proof -
  have "isl (slope_angle data)"
    using assms by (cases data; cases "tl data") (auto simp: slope_angle_def np_get_def py_bind_def)
  then show ?thesis
    by (cases "slope_angle data") (simp_all add: get_parsec_n15_def Let_def py_bind_def)
qed

lemma A0_matrix_fit_layer:
  "A0_matrix (fit_layer xs) = Inr (basis_matrix 12 (1 / 2) 1 xs)"
  by (simp add: A0_matrix_basis fit_layer_simps)

lemma fit_CST_no_lower_half:
  assumes "1 \<le> length y" "length y \<le> 128"
  shows "isl (fit_CST env (fit_layer xs) y 129)"
proof -
  have 1: "py_slice_to 129 y = y" using assms by (simp add: py_slice_to_def)
  have 2: "py_slice_from (129 - 1) y = []" using assms by (simp add: py_slice_from_def)
  have 3: "y \<noteq> []" using assms by auto
  show ?thesis
    unfolding fit_CST_def A0_matrix_fit_layer Let_def 1 2
    using 3 by (simp add: py_bind_def py_last_def)
qed

lemma fit_CST_lower_half_mismatch:
  assumes "130 \<le> length y" "length y \<noteq> 257" "length xs = 129"
  shows "isl (fit_CST env (fit_layer xs) y 129)"
proof -
  have 1: "length (rev (py_slice_to 129 y)) = 129" using assms by (simp add: py_slice_to_def)
  have 2: "length (py_slice_from (129 - 1) y) = length y - 128"
    using assms by (simp add: py_slice_from_def)
  have 3: "rev (py_slice_to 129 y) \<noteq> []" using 1 by auto
  have 4: "py_slice_from (129 - 1) y \<noteq> []" using 2 assms by auto
  have 5: "np_broadcast2 (\<lambda>v w. v - w) (py_slice_from (129 - 1) y) (map (\<lambda>x. x * c) xs) =
             Inl (ValueError ''operands could not be broadcast together'')" for c
    using 2 assms by (auto simp add: np_broadcast2_def)
  show ?thesis
    unfolding fit_CST_def A0_matrix_fit_layer Let_def fit_layer_simps
    using 3 4 5 [of "last (py_slice_from (129 - 1) y)"]
    by (auto simp: py_bind_def py_last_def split: sum.splits)
qed

lemma get_parsec_n15_rejects:
  assumes "length data \<noteq> 129" "length data \<noteq> 257"
  shows "isl (get_parsec_n15 env data)"
proof -
  consider "length data < 2" | "2 \<le> length data" "length data \<le> 128" | "130 \<le> length data"
    using assms by linarith
  then show ?thesis
  proof cases
    case 1
    then show ?thesis by (rule get_parsec_n15_too_short)
  next
    case 2
    then have "isl (fit_CST env (fit_layer (rev (py_slice_to 129 (map fst data)))) (map snd data) 129)"
      by (intro fit_CST_no_lower_half) simp_all
    then show ?thesis by (rule get_parsec_n15_fit_error)
  next
    case 3
    then have "isl (fit_CST env (fit_layer (rev (py_slice_to 129 (map fst data)))) (map snd data) 129)"
      using assms by (intro fit_CST_lower_half_mismatch) (simp_all add: py_slice_to_def)
    then show ?thesis by (rule get_parsec_n15_fit_error)
  qed
qed

lemma np_get_take: "i < k \<Longrightarrow> np_get (take k xs) i = np_get xs i"
  by (simp add: np_get_def)

lemma get_parsec_n15_reads:
  assumes "take 131 d = take 131 d'" "map snd d = map snd d'"
  shows "get_parsec_n15 env d = get_parsec_n15 env d'"
proof -
  have sl: "slope_angle d = slope_angle d'"
  proof -
    have "slope_angle d = slope_angle (take 131 d)" for d :: "(real \<times> real) list"
      by (simp add: slope_angle_def np_get_take)
    with assms(1) show ?thesis by metis
  qed
  have "take 129 (take 131 d) = take 129 (take 131 d')" using assms(1) by simp
  then have "take 129 d = take 129 d'" by simp
  then have xs: "py_slice_to 129 (map fst d) = py_slice_to 129 (map fst d')"
    by (simp add: py_slice_to_def take_map)
  show ?thesis
    unfolding get_parsec_n15_def Let_def sl xs assms(2) assms(1) by (rule refl)
qed

lemma fit_CST_short_returns:
  assumes len: "length data = 129"
    and st: "list_all (\<lambda>p. 0 \<le> fst p \<and> fst p \<le> 1) (take 129 data)"
    and ls: "lstsq_returns env"
  shows "\<exists>au al te.
     fit_CST env (fit_layer (rev (py_slice_to 129 (map fst data)))) (map snd data) 129 =
       Inr (au, al, te) \<and> length au = 13 \<and> length al = 13"
proof -
  let ?xs = "rev (py_slice_to 129 (map fst data))" and ?y = "map snd data"
  let ?A = "basis_matrix 12 (1 / 2) 1 ?xs"
  have xs: "?xs = rev (map fst (take 129 data))" by (simp add: py_slice_to_def take_map)
  have lx: "length ?xs = 129" using len by (simp add: py_slice_to_def)
  have fin: "list_all (list_all is_fin) ?A"
    using st unfolding xs by (intro basis_matrix_fin) (auto simp: list_all_iff)
  have ne: "?A \<noteq> []" using basis_matrix_length [of 12 "1 / 2" 1 ?xs] lx by auto
  have nexs: "?xs \<noteq> []" using lx by (metis length_0_conv zero_neq_numeral)
  have hd: "length (hd ?A) = 13" using basis_matrix_hd [OF nexs, of 12 "1 / 2" 1] by simp
  have solve: "\<exists>a. lstsq env ?A b = Inr a \<and> length a = 13" if "length b = 129" for b
    using ls ne fin that hd basis_matrix_length [of 12 "1 / 2" 1 ?xs] lx
    unfolding lstsq_returns_def by metis
  have t: "py_slice_to 129 ?y = ?y" using len by (simp add: py_slice_to_def)
  have ly: "length (py_slice_from (129 - 1) ?y) = 1" using len by (simp add: py_slice_from_def)
  have ney: "rev ?y \<noteq> []" using len by auto
  have nel: "py_slice_from (129 - 1) ?y \<noteq> []" using ly by auto
  obtain bu where bu: "np_broadcast2 (\<lambda>v w. v - w) (rev ?y)
      (map (\<lambda>x. x * last (rev ?y)) ?xs) = Inr bu" "length bu = 129"
    using len lx by (simp add: np_broadcast2_def)
  obtain bl where bl: "np_broadcast2 (\<lambda>v w. v - w) (py_slice_from (129 - 1) ?y)
      (map (\<lambda>x. x * last (py_slice_from (129 - 1) ?y)) ?xs) = Inr bl" "length bl = 129"
    using ly lx by (simp add: np_broadcast2_def)
  from solve [OF bu(2)] obtain au where au: "lstsq env ?A bu = Inr au" "length au = 13" by blast
  from solve [OF bl(2)] obtain al where al: "lstsq env ?A bl = Inr al" "length al = 13" by blast
  have "fit_CST env (fit_layer ?xs) ?y 129 =
      Inr (au, al, (last (rev ?y) - last (py_slice_from (129 - 1) ?y)) / 2)"
    unfolding fit_CST_def A0_matrix_fit_layer Let_def fit_layer_simps t
    by (simp only: py_bind_def py_last_def ney nel if_False sum.case bu(1) bl(1) au(1) al(1))
  with au(2) al(2) show ?thesis by blast
qed

lemma get_parsec_n15_returns:
  assumes "length data = 257 \<or> length data = 129"
    and "list_all (\<lambda>p. 0 \<le> fst p \<and> fst p \<le> 1) (take 129 data)"
    and "lstsq_returns env" and "minimize_returns env"
  shows "\<exists>v. get_parsec_n15 env data = Inr v"
proof -
  let ?xd = "map fst (drop 126 (take 131 data))" and ?yd = "map snd (drop 126 (take 131 data))"
  obtain au al te where
    fit: "fit_CST env (fit_layer (rev (py_slice_to 129 (map fst data)))) (map snd data) 129 =
            Inr (au, al, te)"
    and au: "length au = 13" and al: "length al = 13"
    using assms(1) fit_CST_returns [OF _ assms(2,3)] fit_CST_short_returns [OF _ assms(2,3)]
    by blast
  from slope_angle_returns [of data] assms(1) obtain angle where
    ang: "slope_angle data = Inr angle" by auto
  from minimize_returns_objective [OF assms(4), of "[Fin (25 / 10000), Fin 0, np_std (?xd @ ?yd)]"
      ?xd ?yd]
  obtain res where
    mn: "minimize env (\<lambda>p. objective p ?xd ?yd)
           [Fin (25 / 10000), Fin 0, np_std (?xd @ ?yd)] = Inr res"
    and len3: "length (opt_x res) = 3"
    by auto
  from list_of_length_3 [OF len3] obtain xc yc r where res: "opt_x res = [xc, yc, r]" by blast
  from get_parsec_n15_run [OF ang fit au al mn res] show ?thesis by blast
qed

lemma math_degrees_quarter: "math_degrees (math_atan PInf) = Fin 90"
  "math_degrees (math_atan NInf) = Fin (- 90)" "math_degrees (math_atan NaN) = NaN"
  by simp_all

text \<open>
  Claim C5, as the code has it. When the first two points share an x-coordinate the
  slope computation raises nothing: the division of numpy floats gives \<open>inf\<close>,
  \<open>-inf\<close> or \<open>nan\<close> as the first ordinate is above, below or equal to the second, the
  angle is 90, -90 or \<open>nan\<close> degrees, and that value is the angle entry (index 9) of
  every feature vector that \<open>get_parsec_n15\<close> returns for the input.
\<close>

theorem slope_with_shared_abscissa:
  assumes "2 \<le> length data" and "fst (data ! 0) = fst (data ! 1)"
  shows "slope_angle data =
       Inr (if snd (data ! 1) < snd (data ! 0) then Fin 90
            else if snd (data ! 0) < snd (data ! 1) then Fin (- 90) else NaN) \<and>
     (\<forall>v. get_parsec_n15 env data = Inr v \<longrightarrow>
        v ! 9 = (if snd (data ! 1) < snd (data ! 0) then Fin 90
                 else if snd (data ! 0) < snd (data ! 1) then Fin (- 90) else NaN))"
proof -
  have s: "slope_angle data =
       Inr (if snd (data ! 1) < snd (data ! 0) then Fin 90
            else if snd (data ! 0) < snd (data ! 1) then Fin (- 90) else NaN)"
    unfolding slope_angle_returns [OF assms(1)] using assms(2)
    by (simp add: inf_of_sign_def)
  show ?thesis
  proof (intro conjI allI impI)
    show "slope_angle data =
       Inr (if snd (data ! 1) < snd (data ! 0) then Fin 90
            else if snd (data ! 0) < snd (data ! 1) then Fin (- 90) else NaN)" by (rule s)
  next
    fix v assume "get_parsec_n15 env data = Inr v"
    from get_parsec_n15_angle [OF this] s
    show "v ! 9 = (if snd (data ! 1) < snd (data ! 0) then Fin 90
                 else if snd (data ! 0) < snd (data ! 1) then Fin (- 90) else NaN)"
      by auto
  qed
qed


lemma blunt_plate_facts:
  "length blunt_plate = 257" "blunt_plate ! 0 = (1, 1 / 100)" "blunt_plate ! 1 = (1, 0)"
  "blunt_plate ! Suc 0 = (1, 0)"
  by (simp_all add: blunt_plate_def)

lemma blunt_plate_stations:
  "list_all (\<lambda>p. 0 \<le> fst p \<and> fst p \<le> 1) (take 129 blunt_plate)"
  by (simp add: blunt_plate_def take_map list_all_iff)

lemma blunt_plate_slope: "slope_angle blunt_plate = Inr (Fin 90)"
  unfolding slope_angle_returns [of blunt_plate, unfolded blunt_plate_facts, simplified]
  by (simp add: blunt_plate_facts inf_of_sign_def)

theorem slope_with_shared_abscissa_witness:
  "2 \<le> length blunt_plate \<and> fst (blunt_plate ! 0) = fst (blunt_plate ! 1) \<and>
   slope_angle blunt_plate = Inr (Fin 90)"
  using slope_with_shared_abscissa [of blunt_plate example_numerics]
  by (simp add: blunt_plate_facts)

text \<open>
  The claim as stated fails on \<open>blunt_plate\<close>, whose first two points share \<open>x = 1\<close>:
  the extraction returns a feature vector whose angle is 90 degrees.
\<close>

theorem vertical_first_segment_counterexample:
  "fst (blunt_plate ! 0) = fst (blunt_plate ! 1) \<and>
   map_sum id (\<lambda>v. v ! 9) (get_parsec_n15 example_numerics blunt_plate) = Inr (Fin 90)"
proof -
  from get_parsec_n15_returns [of blunt_plate example_numerics]
  obtain v where v: "get_parsec_n15 example_numerics blunt_plate = Inr v"
    using blunt_plate_facts(1) blunt_plate_stations example_lstsq_returns example_minimize_returns
    by blast
  from get_parsec_n15_angle [OF v] blunt_plate_slope have "v ! 9 = Fin 90" by auto
  with v show ?thesis by (simp add: blunt_plate_facts)
qed

lemma short_plate_facts: "length short_plate = 129"
  "list_all (\<lambda>p. 0 \<le> fst p \<and> fst p \<le> 1) (take 129 short_plate)"
  by (simp_all add: short_plate_def list_all_iff)

lemma skewed_plate_facts: "length skewed_plate = 257"
  "list_all (\<lambda>p. 0 \<le> fst p \<and> fst p \<le> 1) (take 129 skewed_plate)"
  "fst (skewed_plate ! 192) = 1 / 4" "fst (skewed_plate ! 64) = 1 / 2"
  by (simp_all add: skewed_plate_def take_map list_all_iff power2_eq_square)

lemma skewed_plate_prefix:
  "take 131 flat_plate = take 131 skewed_plate" "map snd flat_plate = map snd skewed_plate"
  by (simp_all add: flat_plate_def skewed_plate_def take_map comp_def)

text \<open>
  Claim C6 (malformed input). The extraction has no validation step of its own; what a
  malformed input meets is the indexing and broadcasting of the computation itself.
  An input of fewer than 257 points, other than one of exactly 129 points, ends in an error
  and returns no feature. The abscissae read are those of rows 0 to 130 only, so two inputs
  that agree on these rows and on every ordinate have the same outcome, whatever the
  abscissae of their lower halves are.
\<close>

theorem malformed_input_outcome:
  "(length data < 257 \<and> length data \<noteq> 129 \<longrightarrow> isl (get_parsec_n15 env data)) \<and>
   (take 131 d = take 131 d' \<and> map snd d = map snd d' \<longrightarrow>
      get_parsec_n15 env d = get_parsec_n15 env d')"
  using get_parsec_n15_rejects [of data env] get_parsec_n15_reads [of d d' env] by auto

theorem malformed_input_outcome_witness:
  "(length (take 200 flat_plate) < 257 \<and> length (take 200 flat_plate) \<noteq> 129) \<and>
   isl (get_parsec_n15 example_numerics (take 200 flat_plate)) \<and>
   (take 131 flat_plate = take 131 skewed_plate \<and> map snd flat_plate = map snd skewed_plate) \<and>
   get_parsec_n15 example_numerics flat_plate = get_parsec_n15 example_numerics skewed_plate"
  using malformed_input_outcome [of "take 200 flat_plate" example_numerics flat_plate skewed_plate]
    skewed_plate_prefix
  by (simp add: flat_plate_length)

text \<open>
  The claim as stated fails on two inputs. \<open>short_plate\<close> has 129 points, fewer than
  257, and the extraction returns a feature vector for it. \<open>skewed_plate\<close> has 257
  points whose lower abscissae do not mirror the upper ones (row 192 against row 64), and
  the extraction returns a feature vector for it as well.
\<close>

theorem unvalidated_input_counterexample:
  "length short_plate = 129 \<and> \<not> isl (get_parsec_n15 example_numerics short_plate) \<and>
   length skewed_plate = 257 \<and> fst (skewed_plate ! 192) \<noteq> fst (skewed_plate ! 64) \<and>
   \<not> isl (get_parsec_n15 example_numerics skewed_plate)"
proof -
  from get_parsec_n15_returns [of short_plate example_numerics]
  have 1: "\<not> isl (get_parsec_n15 example_numerics short_plate)"
    using short_plate_facts example_lstsq_returns example_minimize_returns by auto
  from get_parsec_n15_returns [of skewed_plate example_numerics]
  have 2: "\<not> isl (get_parsec_n15 example_numerics skewed_plate)"
    using skewed_plate_facts(1,2) example_lstsq_returns example_minimize_returns by auto
  from 1 2 show ?thesis by (simp add: short_plate_facts(1) skewed_plate_facts)
qed

text \<open>
  Claim C7 (convergence of the circle fit). Only the iterate \<open>result.x\<close> of the
  minimiser is read. Replacing the \<open>success\<close> flag of every result of the minimiser
  by an arbitrary value leaves the outcome of \<open>get_parsec_n15\<close> unchanged: the returned
  vector carries no convergence flag.
\<close>

theorem convergence_flag_not_returned:
  "get_parsec_n15
     (env\<lparr>minimize := (\<lambda>f x0. map_sum id (\<lambda>res. res\<lparr>opt_success := flag\<rparr>) (minimize env f x0))\<rparr>)
     data =
   get_parsec_n15 env data"
  by (rule convergence_flag_ignored)

lemma stalled_is_flag_update:
  "stalled_numerics =
     example_numerics\<lparr>minimize :=
       (\<lambda>f x0. map_sum id (\<lambda>res. res\<lparr>opt_success := False\<rparr>) (minimize example_numerics f x0))\<rparr>"
  by (simp add: stalled_numerics_def example_numerics_def)

text \<open>
  The claim as stated fails on \<open>flat_plate\<close>: a minimiser that reports success and one
  that reports failure, with the same iterate, lead to the same returned feature vector,
  so a caller cannot tell the two apart.
\<close>

theorem stalled_minimizer_counterexample:
  "map_sum id opt_success
     (minimize example_numerics
        (\<lambda>p. objective p (map fst (drop 126 (take 131 flat_plate)))
                (map snd (drop 126 (take 131 flat_plate))))
        [Fin (25 / 10000), Fin 0,
         np_std (map fst (drop 126 (take 131 flat_plate)) @
                 map snd (drop 126 (take 131 flat_plate)))]) = Inr True \<and>
   map_sum id opt_success
     (minimize stalled_numerics
        (\<lambda>p. objective p (map fst (drop 126 (take 131 flat_plate)))
                (map snd (drop 126 (take 131 flat_plate))))
        [Fin (25 / 10000), Fin 0,
         np_std (map fst (drop 126 (take 131 flat_plate)) @
                 map snd (drop 126 (take 131 flat_plate)))]) = Inr False \<and>
   get_parsec_n15 stalled_numerics flat_plate = get_parsec_n15 example_numerics flat_plate \<and>
   \<not> isl (get_parsec_n15 stalled_numerics flat_plate)"
proof -
  have eq: "get_parsec_n15 stalled_numerics flat_plate = get_parsec_n15 example_numerics flat_plate"
    unfolding stalled_is_flag_update by (rule convergence_flag_ignored)
  from get_parsec_n15_returns [of flat_plate stalled_numerics]
  have "\<not> isl (get_parsec_n15 stalled_numerics flat_plate)"
    using flat_plate_length flat_plate_stations stalled_lstsq_returns stalled_minimize_returns
    by auto
  with eq show ?thesis
    by (simp add: example_numerics_def stalled_numerics_def)
qed
end
